theory Spec2Isabelle
  imports Complex_Main
begin

section \<open>Fields and the flow state\<close>

text \<open>
  Modelled from the spec: the declarations of Scalar, Flux, BoundaryVector and State
  (Scalar.h, Flux.h, BoundaryVector.h, State.h) are not among the sources. A field is
  a grid-indexed numeric field supporting elementwise add/scale; it knows the number of
  grid levels of its grid (the accessor \<^verbatim>\<open>Ngrid()\<close> used by ibpm.cc). A C++ double is
  read as the real number it stands for, and the arithmetic of the fields is read over
  the reals.
\<close>

record Field =
  Ngrid :: int
  cells :: "real list"

type_synonym Scalar = Field
type_synonym Flux = Field
type_synonym BoundaryVector = "real list"

text \<open>
  State: the flux \<^verbatim>\<open>q\<close>, the circulation field (named \<^verbatim>\<open>gamma\<close> in Euler.cc and
  \<^verbatim>\<open>omega\<close> in ibpm.cc), the boundary force \<^verbatim>\<open>f\<close> and the time.
\<close>

record State =
  q :: Flux
  gamma :: Scalar
  f :: BoundaryVector
  time :: real

text \<open>
  Modelled from the spec: the operators of the field classes that the sources use
  (\<^verbatim>\<open>*=\<close>, \<^verbatim>\<open>+=\<close>, \<^verbatim>\<open>-=\<close>, assignment of a double, and a double times a field), which
  are declared with the classes. They act entry by entry and leave the grid of their
  left operand as it is.
\<close>

definition scalar_times_eq :: "Field \<Rightarrow> real \<Rightarrow> Field" where
  \<comment> \<open>\<^verbatim>\<open>a *= c\<close> for a double \<^verbatim>\<open>c\<close>\<close>
  "scalar_times_eq a c = a\<lparr>cells := map (\<lambda>v. v * c) (cells a)\<rparr>"

definition scalar_plus_eq :: "Field \<Rightarrow> real \<Rightarrow> Field" where
  \<comment> \<open>\<^verbatim>\<open>a += c\<close> for a double \<^verbatim>\<open>c\<close>\<close>
  "scalar_plus_eq a c = a\<lparr>cells := map (\<lambda>v. v + c) (cells a)\<rparr>"

definition field_times_eq :: "Field \<Rightarrow> Field \<Rightarrow> Field" where
  \<comment> \<open>\<^verbatim>\<open>a *= b\<close>, elementwise, for two fields on one grid\<close>
  "field_times_eq a b = a\<lparr>cells := map2 (\<lambda>v w. v * w) (cells a) (cells b)\<rparr>"

definition field_plus_eq :: "Field \<Rightarrow> Field \<Rightarrow> Field" where
  \<comment> \<open>\<^verbatim>\<open>a += b\<close>, elementwise, for two fields on one grid\<close>
  "field_plus_eq a b = a\<lparr>cells := map2 (\<lambda>v w. v + w) (cells a) (cells b)\<rparr>"

definition field_minus_eq :: "Field \<Rightarrow> Field \<Rightarrow> Field" where
  \<comment> \<open>\<^verbatim>\<open>a -= b\<close>, elementwise, for two fields on one grid\<close>
  "field_minus_eq a b = a\<lparr>cells := map2 (\<lambda>v w. v - w) (cells a) (cells b)\<rparr>"

definition field_assign :: "Field \<Rightarrow> real \<Rightarrow> Field" where
  \<comment> \<open>\<^verbatim>\<open>a = c\<close> for a double \<^verbatim>\<open>c\<close>: every entry becomes \<^verbatim>\<open>c\<close>\<close>
  "field_assign a c = a\<lparr>cells := map (\<lambda>_. c) (cells a)\<rparr>"

definition bv_assign :: "BoundaryVector \<Rightarrow> real \<Rightarrow> BoundaryVector" where
  "bv_assign v c = map (\<lambda>_. c) v"

definition double_times_field :: "real \<Rightarrow> Field \<Rightarrow> Field" where
  \<comment> \<open>\<^verbatim>\<open>c * a\<close>: a scaled copy\<close>
  "double_times_field c a = a\<lparr>cells := map (\<lambda>v. c * v) (cells a)\<rparr>"


section \<open>The addition of doubles\<close>

text \<open>
  The time of a State and the timestep are doubles, and \<^verbatim>\<open>x.time += _timestep\<close> is an
  addition of doubles: the exact sum, rounded to the nearest binary64 value, a tie going
  to the even significand. The exponent of a value is looked for from 1023 downwards and
  is never below -1022, the exponent of the subnormal values; the spacing of the doubles
  at exponent \<open>e\<close> is \<open>2 powi (e - 52)\<close>. A sum of magnitude \<open>2 powi 1024 - 2 powi 970\<close>
  or more is infinite in the code; infinities are outside this model, and
  \<open>double_finite\<close> says that a sum stays below that bound.
\<close>

fun double_exponent_search :: "real \<Rightarrow> nat \<Rightarrow> int" where
  "double_exponent_search a 0 = - 1022"
| "double_exponent_search a (Suc k) =
     (if 2 powi (int k - 1021) \<le> a then int k - 1021 else double_exponent_search a k)"

definition double_exponent :: "real \<Rightarrow> int" where
  "double_exponent x = double_exponent_search \<bar>x\<bar> 2045"

definition round_half_even :: "real \<Rightarrow> int" where
  "round_half_even y =
     (let n = \<lfloor>y\<rfloor>; r = y - of_int n
      in if r < 1 / 2 then n else if 1 / 2 < r then n + 1
         else if even n then n else n + 1)"

definition double_round :: "real \<Rightarrow> real" where
  "double_round x =
     (let u = 2 powi (double_exponent x - 52)
      in of_int (round_half_even (x / u)) * u)"

definition double_plus :: "real \<Rightarrow> real \<Rightarrow> real" where
  "double_plus a b = double_round (a + b)"

definition double_finite :: "real \<Rightarrow> bool" where
  "double_finite x = (\<bar>x\<bar> < 2 powi 1024 - 2 powi 970)"


section \<open>The collaborators of the time stepper\<close>

text \<open>
  Geometry, NavierStokesModel and ProjectionSolver are declared outside the sources;
  their member functions are parameters of the development. The Geometry object is
  mutable shared state (\<^verbatim>\<open>moveBodies\<close> repositions its points): its state has the
  type \<open>'g\<close>, and its member functions take and return it. \<^verbatim>\<open>computeFlux(gamma, q)\<close>
  writes the flux of the circulation \<^verbatim>\<open>gamma\<close> into \<^verbatim>\<open>q\<close>; it is the function that
  gives this flux.
\<close>

record 'g Geometry =
  isStationary :: "'g \<Rightarrow> bool"
  moveBodies :: "real \<Rightarrow> 'g \<Rightarrow> 'g"
  getVelocities :: "'g \<Rightarrow> BoundaryVector"

record 'g NavierStokesModel =
  getLambda :: Scalar
  S :: "Scalar \<Rightarrow> Scalar"
  Sinv :: "Scalar \<Rightarrow> Scalar"
  nonlinear :: "State \<Rightarrow> Scalar"
  computeFlux :: "Scalar \<Rightarrow> Flux"
  getGeometry :: "'g Geometry"

text \<open>
  \<^verbatim>\<open>solve(a, b, gamma, f)\<close> receives the right-hand sides and writes the circulation
  and the boundary force through its last two arguments.
\<close>

record ProjectionSolver =
  solve :: "Scalar \<Rightarrow> BoundaryVector \<Rightarrow> Scalar \<Rightarrow> BoundaryVector \<Rightarrow> Scalar \<times> BoundaryVector"

text \<open>The calls a step makes to its collaborators, in the order it makes them.\<close>

datatype Call =
    Call_moveBodies real
  | Call_S Scalar
  | Call_Sinv Scalar
  | Call_nonlinear State
  | Call_getVelocities
  | Call_solve Scalar BoundaryVector
  | Call_computeFlux Scalar


section \<open>Euler.cc\<close>

record 'g Euler =
  model :: "'g NavierStokesModel"
  timestep :: real
  linearTermEigenvalues :: Scalar
  solver :: ProjectionSolver

text \<open>
  The constructor. \<^verbatim>\<open>createSolver\<close> is a member of the base class TimeStepper, which
  is not among the sources: it is a parameter.
\<close>

definition Euler_new ::
  "(real \<Rightarrow> ProjectionSolver) \<Rightarrow> 'g NavierStokesModel \<Rightarrow> real \<Rightarrow> 'g Euler" where
  "Euler_new createSolver m h =
     (let eig = getLambda m;
          eig = scalar_times_eq eig (h / 2);
          eig = scalar_plus_eq eig 1
      in \<lparr>model = m, timestep = h, linearTermEigenvalues = eig,
          solver = createSolver h\<rparr>)"

text \<open>
  What \<^verbatim>\<open>advance\<close> can reach: the stepper object itself, the Geometry behind the
  model's pointer, the State passed by reference, and the log of collaborator calls.
\<close>

record 'g Heap =
  stepper :: "'g Euler"
  geom :: 'g
  state :: State
  calls :: "Call list"

definition advance :: "'g Heap \<Rightarrow> 'g Heap" where
  "advance hp =
     (let e = stepper hp; x = state hp; m = model e;
          geo = getGeometry m;
          hp = (if \<not> isStationary geo (geom hp)
                then hp\<lparr>geom := moveBodies geo (time x) (geom hp),
                        calls := calls hp @ [Call_moveBodies (time x)]\<rparr>
                else hp);
          a = S m (gamma x);
          hp = hp\<lparr>calls := calls hp @ [Call_S (gamma x)]\<rparr>;
          a1 = field_times_eq a (linearTermEigenvalues e);
          a2 = Sinv m a1;
          hp = hp\<lparr>calls := calls hp @ [Call_Sinv a1]\<rparr>;
          nl = nonlinear m x;
          hp = hp\<lparr>calls := calls hp @ [Call_nonlinear x]\<rparr>;
          a3 = field_plus_eq a2 (double_times_field (timestep e) nl);
          b = getVelocities geo (geom hp);
          hp = hp\<lparr>calls := calls hp @ [Call_getVelocities]\<rparr>;
          (gamma', f') = solve (solver e) a3 b (gamma x) (f x);
          hp = hp\<lparr>calls := calls hp @ [Call_solve a3 b]\<rparr>;
          x = x\<lparr>gamma := gamma', f := f'\<rparr>;
          x = x\<lparr>q := computeFlux m (gamma x)\<rparr>;
          hp = hp\<lparr>calls := calls hp @ [Call_computeFlux (gamma x)]\<rparr>;
          x = x\<lparr>time := double_plus (time x) (timestep e)\<rparr>
      in hp\<lparr>state := x\<rparr>)"

text \<open>The driver's use of a stepper: \<^verbatim>\<open>advance\<close> called \<open>n\<close> times in sequence.\<close>

fun advance_n :: "nat \<Rightarrow> 'g Heap \<Rightarrow> 'g Heap" where
  "advance_n 0 hp = hp"
| "advance_n (Suc n) hp = advance_n n (advance hp)"

text \<open>The right-hand sides of one step, as the spec writes them.\<close>

definition rhs_a :: "'g Euler \<Rightarrow> State \<Rightarrow> Scalar" where
  "rhs_a e x =
     field_plus_eq
       (Sinv (model e) (field_times_eq (S (model e) (gamma x)) (linearTermEigenvalues e)))
       (double_times_field (timestep e) (nonlinear (model e) x))"

text \<open>The calls one \<^verbatim>\<open>advance\<close> adds to the log.\<close>

definition new_calls :: "'g Heap \<Rightarrow> Call list" where
  "new_calls hp = drop (length (calls hp)) (calls (advance hp))"

fun is_solve :: "Call \<Rightarrow> bool" where
  "is_solve (Call_solve a b) = True"
| "is_solve _ = False"

fun is_moveBodies :: "Call \<Rightarrow> bool" where
  "is_moveBodies (Call_moveBodies t) = True"
| "is_moveBodies _ = False"


section \<open>The schemes without a body in the sources\<close>

text \<open>
  Modelled from the spec: \<^verbatim>\<open>advance\<close> of RungeKutta2, RungeKutta3 and AdamsBashforth.
  RungeKutta2.h declares it; no body of the three is among the sources. Spec 4.3 gives
  the contract that all variants share: a scheme runs its stages, each a projection
  solve that yields a circulation and a boundary force; \<^verbatim>\<open>state.q\<close> is refreshed by
  \<^verbatim>\<open>computeFlux\<close> after the update of \<^verbatim>\<open>gamma\<close>; \<^verbatim>\<open>state.time\<close> is incremented by the
  timestep exactly once per call, at the end. What the stages of a scheme compute is a
  parameter: from the heap at the start of the call and the history that the scheme keeps
  between calls, they give the Geometry as they leave it, the circulation and the force
  of their last solve, and the new history.
\<close>

type_synonym ('g, 'h) Stages = "'g Heap \<Rightarrow> 'h \<Rightarrow> 'g \<times> Scalar \<times> BoundaryVector \<times> 'h"

definition contract_advance :: "('g, 'h) Stages \<Rightarrow> 'g Heap \<times> 'h \<Rightarrow> 'g Heap \<times> 'h" where
  "contract_advance stages hh =
     (let (hp, hist) = hh; e = stepper hp; x = state hp;
          (g', gamma', f', hist') = stages hp hist;
          x = x\<lparr>gamma := gamma', f := f'\<rparr>;
          x = x\<lparr>q := computeFlux (model e) (gamma x)\<rparr>;
          x = x\<lparr>time := double_plus (time x) (timestep e)\<rparr>
      in (hp\<lparr>geom := g', state := x\<rparr>, hist'))"

text \<open>
  The four schemes that \<^verbatim>\<open>GetSolver\<close> knows: Euler with the step of Euler.cc, the
  other three with the contract of the spec and their stages.
\<close>

datatype ('g, 'h) Scheme =
    Euler_scheme
  | AdamsBashforth_scheme "('g, 'h) Stages"
  | RungeKutta2_scheme "('g, 'h) Stages"
  | RungeKutta3_scheme "('g, 'h) Stages"

fun scheme_advance :: "('g, 'h) Scheme \<Rightarrow> 'g Heap \<times> 'h \<Rightarrow> 'g Heap \<times> 'h" where
  "scheme_advance Euler_scheme (hp, hist) = (advance hp, hist)"
| "scheme_advance (AdamsBashforth_scheme stages) hh = contract_advance stages hh"
| "scheme_advance (RungeKutta2_scheme stages) hh = contract_advance stages hh"
| "scheme_advance (RungeKutta3_scheme stages) hh = contract_advance stages hh"

fun scheme_advance_n :: "('g, 'h) Scheme \<Rightarrow> nat \<Rightarrow> 'g Heap \<times> 'h \<Rightarrow> 'g Heap \<times> 'h" where
  "scheme_advance_n sch 0 hh = hh"
| "scheme_advance_n sch (Suc n) hh = scheme_advance_n sch n (scheme_advance sch hh)"

text \<open>
  The time after \<open>n\<close> additions of the timestep \<open>h\<close>, one after the other, and whether
  each of these sums stays finite.
\<close>

fun time_after :: "nat \<Rightarrow> real \<Rightarrow> real \<Rightarrow> real" where
  "time_after 0 h t = t"
| "time_after (Suc n) h t = time_after n h (double_plus t h)"

fun sums_finite :: "nat \<Rightarrow> real \<Rightarrow> real \<Rightarrow> bool" where
  "sums_finite 0 h t = True"
| "sums_finite (Suc n) h t = (double_finite (t + h) \<and> sums_finite n h (double_plus t h))"


section \<open>ibpm.cc\<close>

text \<open>
  The bounds of \<^verbatim>\<open>int\<close>. An \<^verbatim>\<open>int\<close> of the program is read as an integer; where the
  program adds to one, a result outside these bounds is undefined behaviour.
\<close>

definition INT_MAX :: int where
  "INT_MAX = 2147483647"

definition INT_MIN :: int where
  "INT_MIN = - 2147483648"

datatype ModelType = LINEAR | NONLINEAR | ADJOINT | LINEARPERIODIC | INVALID

text \<open>The model objects \<^verbatim>\<open>main\<close> constructs, with the base flow they receive.\<close>

datatype Model =
    NonlinearNavierStokes
  | LinearizedNavierStokes State
  | AdjointNavierStokes State
  | LinearizedPeriodicNavierStokes "State list" int

datatype TimeStepper =
    New_Euler Model real
  | New_AdamsBashforth Model real
  | New_RungeKutta2 Model real
  | New_RungeKutta3 Model real

text \<open>
  What \<^verbatim>\<open>main\<close> reaches outside the sources: the files (\<^verbatim>\<open>Geometry::load\<close>, which
  gives the number of boundary points when it succeeds, and \<^verbatim>\<open>State::load\<close>, which
  returns its verdict and leaves the State as it leaves it), the State constructor,
  the C library's \<^verbatim>\<open>sprintf\<close> with one integer argument, \<^verbatim>\<open>advance\<close> of the
  stepper that \<^verbatim>\<open>GetSolver\<close> returned, the text \<^verbatim>\<open>ParmParser::printUsage\<close>
  prints, and the helper \<^verbatim>\<open>MakeLowercase\<close>.

  Modelled from the spec: the constructors of the three models with a base flow are
  not among the sources. By spec 4.1 and 7 a model constructed with a base flow whose
  grid does not match the working grid fails fast, a fatal error before the integration
  loop. Whether a base flow matches the working grid is \<open>baseflow_fits\<close>.
\<close>

record Env =
  printUsage :: "string list"
  MakeLowercase :: "string \<Rightarrow> string"
  baseflow_fits :: "State \<Rightarrow> bool"
  Geometry_load :: "string \<Rightarrow> nat option"
  State_new :: "nat \<Rightarrow> State"
  State_load :: "string \<Rightarrow> State \<Rightarrow> bool \<times> State"
  sprintf :: "string \<Rightarrow> int \<Rightarrow> string"
  TimeStepper_advance :: "TimeStepper \<Rightarrow> State \<Rightarrow> State"

text \<open>
  The program's output is kept as the list of its messages, on \<^verbatim>\<open>cout\<close> and
  \<^verbatim>\<open>cerr\<close> alike. Only the messages of the branches that decide how a run ends are
  kept (the diagnostics before an exit and the lines of the initial-condition stage);
  the banner and the echo of the parameters are left out.
\<close>

definition str2model :: "Env \<Rightarrow> string \<Rightarrow> ModelType \<times> string list" where
  "str2model env modelName =
     (let modelName = MakeLowercase env modelName in
      if modelName = ''nonlinear'' then (NONLINEAR, [])
      else if modelName = ''linear'' then (LINEAR, [])
      else if modelName = ''adjoint'' then (ADJOINT, [])
      else if modelName = ''linearperiodic'' then (LINEARPERIODIC, [])
      else (INVALID, [''Unrecognized model: '' @ modelName]))"

text \<open>
  The values \<^verbatim>\<open>ParmParser\<close> hands to \<^verbatim>\<open>main\<close>, for the parameters that decide
  the control flow. The parser is not among the sources: \<open>inputIsValid\<close> is its verdict
  on the command line. The parsed \<^verbatim>\<open>int\<close>s are read as integers.
\<close>

record Config =
  inputIsValid :: bool
  helpFlag :: bool
  geomFile :: string
  dt :: real
  modelName :: string
  baseFlow :: string
  integratorType :: string
  icFile :: string
  numSteps :: int
  period :: int
  periodStart :: int
  periodBaseFlowName :: string
  subtractBaseflow :: bool

text \<open>
  How a run ends: \<^verbatim>\<open>exit(n)\<close>, an abort (a failed \<^verbatim>\<open>assert\<close>, an uncaught
  exception, a model that fails fast), undefined behaviour (a read out of range, a
  buffer overrun, an \<^verbatim>\<open>int\<close> overflow), or the \<^verbatim>\<open>return 0\<close> at the end of
  \<^verbatim>\<open>main\<close>, with the model and time stepper it used, the final State and the number
  of \<^verbatim>\<open>advance\<close> calls it made. Each carries the output. A run whose loop counter
  overflows has made its \<^verbatim>\<open>advance\<close> calls before: it ends as \<open>Loop_undefined\<close> with
  their number.
\<close>

datatype Halt = Exit int "string list" | Abort "string list" | Undefined "string list"

datatype Result =
    Halted Halt
  | Returned int "string list" Model TimeStepper State nat
  | Loop_undefined "string list" nat

text \<open>Lines 104 to 125: the checks of the base-flow parameters, all ending in \<^verbatim>\<open>exit(1)\<close>.\<close>

definition check_baseflow_parameters :: "ModelType \<Rightarrow> Config \<Rightarrow> string option" where
  "check_baseflow_parameters modelType c =
     (if modelType \<noteq> NONLINEAR then
        if modelType \<noteq> LINEARPERIODIC \<and> baseFlow c = '''' then
          Some ''ERROR: for linear or adjoint models, must specify a base flow''
        else if modelType \<noteq> LINEARPERIODIC \<and> periodBaseFlowName c \<noteq> '''' then
          Some ''WARNING: for linear or adjoint models, a periodic base flow is not needed''
        else if modelType = LINEARPERIODIC \<and> periodBaseFlowName c = '''' then
          Some ''ERROR: for linear periodic model, must specify a periodic base flow''
        else if modelType = LINEARPERIODIC \<and> baseFlow c \<noteq> '''' then
          Some ''WARNING: for linear periodic model, a single baseflow is not needed''
        else None
      else None)"

text \<open>
  Lines 189 to 193: the loop that loads the periodic base flows. The sum
  \<^verbatim>\<open>i + periodStart\<close> is a sum of \<^verbatim>\<open>int\<close>s; the file name is written into a buffer
  of 256 characters, and a name of 256 characters or more overruns it. Both are
  undefined behaviour (\<open>None\<close>). The value \<^verbatim>\<open>load\<close> returns is not looked at.
\<close>

function load_periodic_baseflows ::
  "Env \<Rightarrow> string \<Rightarrow> int \<Rightarrow> int \<Rightarrow> int \<Rightarrow> State list \<Rightarrow> State list option" where
  "load_periodic_baseflows env pbf pstart per i x0 =
     (if i < per then
        if i + pstart < INT_MIN \<or> INT_MAX < i + pstart then None
        else
          (let pbffilename = sprintf env pbf (i + pstart) in
           if 256 \<le> length pbffilename then None
           else load_periodic_baseflows env pbf pstart per (i + 1)
                  (x0[nat i := snd (State_load env pbffilename (x0 ! nat i))]))
      else Some x0)"
  by pat_completeness auto
termination
  by (relation "measure (\<lambda>(env, pbf, pstart, per, i, x0). nat (per - i))") auto

declare load_periodic_baseflows.simps [simp del]

text \<open>
  Lines 170 to 203: the model. \<^verbatim>\<open>vector<State> x0(period, x00)\<close> throws for a negative
  \<^verbatim>\<open>period\<close>, and \<^verbatim>\<open>x0[0]\<close> is read out of range when \<^verbatim>\<open>period\<close> is 0. A model
  whose base flow does not fit the working grid fails fast. The result is the model and
  \<^verbatim>\<open>x00\<close>.
\<close>

definition setup_model ::
  "Env \<Rightarrow> Config \<Rightarrow> ModelType \<Rightarrow> nat \<Rightarrow> string list \<Rightarrow> Halt + (Model \<times> State)" where
  "setup_model env c modelType numPoints out =
     (let x00 = State_new env numPoints in
      case modelType of
        NONLINEAR \<Rightarrow> Inr (NonlinearNavierStokes, x00)
      | LINEAR \<Rightarrow>
          (let x00 = snd (State_load env (baseFlow c) x00)
           in if \<not> baseflow_fits env x00 then Inl (Abort out)
              else Inr (LinearizedNavierStokes x00, x00))
      | ADJOINT \<Rightarrow>
          (let x00 = snd (State_load env (baseFlow c) x00)
           in if \<not> baseflow_fits env x00 then Inl (Abort out)
              else Inr (AdjointNavierStokes x00, x00))
      | LINEARPERIODIC \<Rightarrow>
          (if period c < 0 then Inl (Abort out)
           else
             case load_periodic_baseflows env (periodBaseFlowName c) (periodStart c)
                    (period c) 0 (replicate (nat (period c)) x00) of
               None \<Rightarrow> Inl (Undefined out)
             | Some x0 \<Rightarrow>
                 (case x0 of
                    [] \<Rightarrow> Inl (Undefined out)
                  | x00 # _ \<Rightarrow>
                      if \<not> list_all (baseflow_fits env) x0 then Inl (Abort out)
                      else Inr (LinearizedPeriodicNavierStokes x0 (period c), x00)))
      | INVALID \<Rightarrow> Inl (Exit 1 (out @ [''ERROR: must specify a valid modelType''])))"

text \<open>Lines 307 to 330.\<close>

definition GetSolver ::
  "Env \<Rightarrow> Model \<Rightarrow> real \<Rightarrow> string \<Rightarrow> string list \<Rightarrow> Halt + TimeStepper" where
  "GetSolver env mdl h solverType out =
     (let solverType = MakeLowercase env solverType in
      if solverType = ''euler'' then Inr (New_Euler mdl h)
      else if solverType = ''ab2'' then Inr (New_AdamsBashforth mdl h)
      else if solverType = ''rk2'' then Inr (New_RungeKutta2 mdl h)
      else if solverType = ''rk3'' then Inr (New_RungeKutta3 mdl h)
      else Inl (Exit 1 (out @ [''ERROR: unrecognized solver: '' @ solverType])))"

text \<open>Lines 217 to 220: the State \<^verbatim>\<open>x\<close>, set to zero.\<close>

definition zero_state :: "Env \<Rightarrow> nat \<Rightarrow> State" where
  "zero_state env numPoints =
     (let x = State_new env numPoints;
          x = x\<lparr>gamma := field_assign (gamma x) 0\<rparr>;
          x = x\<lparr>f := bv_assign (f x) 0\<rparr>;
          x = x\<lparr>q := field_assign (q x) 0\<rparr>
      in x)"

text \<open>Lines 216 to 243: the initial condition.\<close>

definition load_initial_condition ::
  "Env \<Rightarrow> Config \<Rightarrow> ModelType \<Rightarrow> State \<Rightarrow> nat \<Rightarrow> string list \<Rightarrow> Halt + (State \<times> string list)" where
  "load_initial_condition env c modelType x00 numPoints out =
     (let x = zero_state env numPoints in
      if icFile c \<noteq> '''' then
        (let out = out @ [''Loading initial condition from file: '' @ icFile c];
             (ok, x) = State_load env (icFile c) x;
             out = (if \<not> ok then out @ [''  (failed: using zero initial condition)'']
                    else out)
         in if subtractBaseflow c = True then
              (let out = out @ [''  Subtract initial condition by baseflow to form a linear initial perturbation'']
               in if modelType \<noteq> NONLINEAR then
                    if Ngrid (q x) \<noteq> Ngrid (q x00) then Inl (Abort out)
                    else if Ngrid (gamma x) \<noteq> Ngrid (gamma x00) then Inl (Abort out)
                    else
                      (let x = x\<lparr>q := field_minus_eq (q x) (q x00)\<rparr>;
                           x = x\<lparr>gamma := field_minus_eq (gamma x) (gamma x00)\<rparr>;
                           x = x\<lparr>f := bv_assign (f x) 0\<rparr>
                       in Inr (x, out))
                  else
                    Inl (Exit 1 (out @ [''Flag subbaseflow should be true only for linear cases''])))
            else Inr (x, out))
      else Inr (x, out @ [''Using zero initial condition'']))"

text \<open>
  Lines 269 to 278: the integration loop, counting its \<^verbatim>\<open>advance\<close> calls. The counter
  is an \<^verbatim>\<open>int\<close>: after the step at \<open>INT_MAX\<close> its increment is undefined behaviour
  (\<open>Inl\<close>, with the State and the number of calls so far). The forces the loop prints
  and the logger's output after each step are left out.
\<close>

function integrate ::
  "(State \<Rightarrow> State) \<Rightarrow> int \<Rightarrow> int \<Rightarrow> State \<times> nat \<Rightarrow> (State \<times> nat) + (State \<times> nat)" where
  "integrate adv n i (x, k) =
     (if i \<le> n then
        if i = INT_MAX then Inl (adv x, Suc k)
        else integrate adv n (i + 1) (adv x, Suc k)
      else Inr (x, k))"
  by pat_completeness auto
termination
  by (relation "measure (\<lambda>(adv, n, i, xk). nat (n + 1 - i))") auto

declare integrate.simps [simp del]

text \<open>
  Everything \<^verbatim>\<open>main\<close> does before the loop, in the order of the source: the result is
  an early end of the run, or what the loop starts from. Between these stages \<^verbatim>\<open>main\<close>
  creates the output directory and the grid, initialises the model (the assertion that
  the model pointer is not null holds after every branch that gets there), loads or
  initialises the history of the stepper and sets up the logger: calls into code
  outside the sources, after none of which \<^verbatim>\<open>main\<close> takes a decision. They are left
  out.
\<close>

record Ready =
  ready_model :: Model
  ready_solver :: TimeStepper
  ready_x00 :: State
  ready_x :: State
  ready_out :: "string list"

definition before_loop :: "Env \<Rightarrow> Config \<Rightarrow> Halt + Ready" where
  "before_loop env c =
     (let (modelType, out) = str2model env (modelName c) in
      if \<not> inputIsValid c \<or> modelType = INVALID \<or> helpFlag c then
        Inl (Exit 1 (out @ printUsage env))
      else
        case check_baseflow_parameters modelType c of
          Some msg \<Rightarrow> Inl (Exit 1 (out @ [msg]))
        | None \<Rightarrow>
        (case Geometry_load env (geomFile c) of
          None \<Rightarrow> Inl (Exit (- 1) out)
        | Some numPoints \<Rightarrow>
        (case setup_model env c modelType numPoints out of
          Inl h \<Rightarrow> Inl h
        | Inr (mdl, x00) \<Rightarrow>
        (case GetSolver env mdl (dt c) (integratorType c) out of
          Inl h \<Rightarrow> Inl h
        | Inr ts \<Rightarrow>
        (case load_initial_condition env c modelType x00 numPoints out of
          Inl h \<Rightarrow> Inl h
        | Inr (x, out) \<Rightarrow>
            Inr \<lparr>ready_model = mdl, ready_solver = ts, ready_x00 = x00,
                 ready_x = x, ready_out = out\<rparr>)))))"

definition main :: "Env \<Rightarrow> Config \<Rightarrow> Result" where
  "main env c =
     (case before_loop env c of
        Inl h \<Rightarrow> Halted h
      | Inr r \<Rightarrow>
          (case integrate (TimeStepper_advance env (ready_solver r)) (numSteps c) 1
                  (ready_x r, 0) of
             Inl (x, k) \<Rightarrow> Loop_undefined (ready_out r) k
           | Inr (x, k) \<Rightarrow>
               Returned 0 (ready_out r) (ready_model r) (ready_solver r) x k))"

text \<open>The \<^verbatim>\<open>advance\<close> calls of a run.\<close>

fun advance_calls :: "Result \<Rightarrow> nat" where
  "advance_calls (Halted h) = 0"
| "advance_calls (Returned st out m s x k) = k"
| "advance_calls (Loop_undefined out k) = k"

text \<open>The schemes \<^verbatim>\<open>GetSolver\<close> knows.\<close>

definition known_scheme :: "Env \<Rightarrow> string \<Rightarrow> bool" where
  "known_scheme env solverType =
     (MakeLowercase env solverType \<in> {''euler'', ''ab2'', ''rk2'', ''rk3''})"


section \<open>A concrete stepper for evaluating the definitions\<close>

text \<open>
  One marker point whose velocity at time \<open>t\<close> is \<open>t\<close>; the geometry state is the time
  its points have been moved to. The transforms are the identity on a one-cell grid, the
  nonlinear term is the flux, the flux is twice the circulation, and the solver returns
  its right-hand sides.
\<close>

definition ex_geometry :: "bool \<Rightarrow> real Geometry" where
  "ex_geometry stationary =
     \<lparr>isStationary = (\<lambda>_. stationary), moveBodies = (\<lambda>t _. t),
      getVelocities = (\<lambda>t. [t])\<rparr>"

definition ex_model :: "bool \<Rightarrow> real NavierStokesModel" where
  "ex_model stationary =
     \<lparr>getLambda = \<lparr>Ngrid = 1, cells = [- 2]\<rparr>, S = (\<lambda>a. a), Sinv = (\<lambda>a. a),
      nonlinear = (\<lambda>x. q x), computeFlux = (\<lambda>g. scalar_times_eq g 2),
      getGeometry = ex_geometry stationary\<rparr>"

definition ex_createSolver :: "real \<Rightarrow> ProjectionSolver" where
  "ex_createSolver h = \<lparr>solve = (\<lambda>a b g v. (a, b))\<rparr>"

definition ex_state :: State where
  "ex_state = \<lparr>q = \<lparr>Ngrid = 1, cells = [6]\<rparr>, gamma = \<lparr>Ngrid = 1, cells = [4]\<rparr>,
               f = [0], time = 2\<rparr>"

definition ex_heap :: "bool \<Rightarrow> real Heap" where
  "ex_heap stationary =
     \<lparr>stepper = Euler_new ex_createSolver (ex_model stationary) (1 / 2),
      geom = 0, state = ex_state, calls = []\<rparr>"

text \<open>
  The same stepper with the double nearest to one tenth as its timestep, on a state
  at time 0.
\<close>

definition ex_tenth :: real where
  "ex_tenth = 3602879701896397 / 36028797018963968"

definition ex_heap_tenth :: "real Heap" where
  "ex_heap_tenth =
     \<lparr>stepper = Euler_new ex_createSolver (ex_model True) ex_tenth,
      geom = 0, state = ex_state\<lparr>time := 0\<rparr>, calls = []\<rparr>"

text \<open>Stages that leave everything as it is, for the schemes of the spec's contract.\<close>

definition ex_stages :: "(real, unit) Stages" where
  "ex_stages hp hist = (geom hp, gamma (state hp), f (state hp), hist)"


section \<open>A concrete run for evaluating the definitions\<close>

text \<open>
  Two State files exist, a base flow and an initial condition; loading any other name
  fails and leaves the State as it was. The geometry file holds one boundary point. A
  new State holds the value 8 everywhere. The periodic base flows are named
  \<^verbatim>\<open>p0.bin\<close> and \<^verbatim>\<open>p1.bin\<close>, a time step adds 1 to the time,
  \<^verbatim>\<open>MakeLowercase\<close> maps the ASCII capitals to small letters, and a base flow fits
  the working grid when its flux has one grid level and one cell.
\<close>

definition ascii_lowercase :: "string \<Rightarrow> string" where
  "ascii_lowercase s =
     map (\<lambda>c. case map_of (zip ''ABCDEFGHIJKLMNOPQRSTUVWXYZ''
                                 ''abcdefghijklmnopqrstuvwxyz'') c of
                None \<Rightarrow> c
              | Some l \<Rightarrow> l) s"

definition ex_files :: "string \<Rightarrow> State option" where
  "ex_files fname =
     (if fname = ''base.bin'' then
        Some \<lparr>q = \<lparr>Ngrid = 1, cells = [3]\<rparr>, gamma = \<lparr>Ngrid = 1, cells = [1]\<rparr>,
              f = [7], time = 0\<rparr>
      else if fname = ''ic.bin'' then
        Some \<lparr>q = \<lparr>Ngrid = 1, cells = [5]\<rparr>, gamma = \<lparr>Ngrid = 1, cells = [2]\<rparr>,
              f = [1], time = 4\<rparr>
      else None)"

definition ex_env :: Env where
  "ex_env =
     \<lparr>printUsage = [''usage: ibpm [options]''],
      MakeLowercase = ascii_lowercase,
      baseflow_fits = (\<lambda>s. Ngrid (q s) = 1 \<and> length (cells (q s)) = 1),
      Geometry_load = (\<lambda>fname. if fname = ''body.geom'' then Some 1 else None),
      State_new = (\<lambda>n. \<lparr>q = \<lparr>Ngrid = 1, cells = [8]\<rparr>, gamma = \<lparr>Ngrid = 1, cells = [8]\<rparr>,
                         f = replicate n 8, time = 0\<rparr>),
      State_load = (\<lambda>fname x. case ex_files fname of
                                  None \<Rightarrow> (False, x)
                                | Some s \<Rightarrow> (True, s)),
      sprintf = (\<lambda>fmt i. if i = 0 then ''p0.bin'' else ''p1.bin''),
      TimeStepper_advance = (\<lambda>ts x. x\<lparr>time := time x + 1\<rparr>)\<rparr>"

text \<open>The defaults of the parameters, with a run of two steps.\<close>

definition ex_config :: Config where
  "ex_config =
     \<lparr>inputIsValid = True, helpFlag = False, geomFile = ''body.geom'', dt = 1 / 100,
      modelName = ''nonlinear'', baseFlow = [], integratorType = ''rk2'', icFile = [],
      numSteps = 2, period = 1, periodStart = 0, periodBaseFlowName = [],
      subtractBaseflow = False\<rparr>"


section \<open>Properties of the addition of doubles\<close>

lemma double_exponent_search_eq:
  assumes "- 1022 \<le> e" "e \<le> int k - 1022" "2 powi e \<le> a" "a < 2 powi (e + 1)"
  shows "double_exponent_search a k = e"
  using assms
proof (induction k)
  case 0
  then show ?case by simp
next
  case (Suc k)
  show ?case
  proof (cases "e = int k - 1021")
    case True
    with Suc.prems show ?thesis by simp
  next
    case False
    with Suc.prems have le: "e \<le> int k - 1022" by simp
    then have "e + 1 \<le> int k - 1021" by simp
    then have "(2::real) powi (e + 1) \<le> 2 powi (int k - 1021)"
      by (intro power_int_increasing) simp_all
    with Suc.prems have "\<not> 2 powi (int k - 1021) \<le> a" by simp
    with Suc.IH [OF Suc.prems(1) le Suc.prems(3,4)] show ?thesis by simp
  qed
qed

lemma double_exponent_eq:
  "- 1022 \<le> e \<Longrightarrow> e \<le> 1023 \<Longrightarrow> 2 powi e \<le> \<bar>x\<bar> \<Longrightarrow> \<bar>x\<bar> < 2 powi (e + 1) \<Longrightarrow>
   double_exponent x = e"
  unfolding double_exponent_def by (rule double_exponent_search_eq) simp_all

lemmas double_plus_defs =
  double_plus_def double_round_def round_half_even_def Let_def power_int_minus

lemma ex_half_steps:
  "double_plus 2 (1 / 2) = 5 / 2"
  "double_plus (5 / 2) (1 / 2) = 3"
  "double_plus 3 (1 / 2) = 7 / 2"
proof -
  have "double_exponent (2 + 1 / 2) = 1" "double_exponent (5 / 2 + 1 / 2) = 1"
    "double_exponent (3 + 1 / 2) = 1"
    by (rule double_exponent_eq; simp)+
  then show "double_plus 2 (1 / 2) = 5 / 2" "double_plus (5 / 2) (1 / 2) = 3"
    "double_plus 3 (1 / 2) = 7 / 2"
    by (simp_all add: double_plus_defs)
qed

lemma ex_half_finite:
  "double_finite (5 / 2)" "double_finite 3" "double_finite (7 / 2)"
  by (simp_all add: double_finite_def)

lemma ex_tenth_steps:
  "double_plus (0) ex_tenth = 3602879701896397 / 36028797018963968"
  "double_plus (3602879701896397 / 36028797018963968) ex_tenth = 3602879701896397 / 18014398509481984"
  "double_plus (3602879701896397 / 18014398509481984) ex_tenth = 1351079888211149 / 4503599627370496"
  "double_plus (1351079888211149 / 4503599627370496) ex_tenth = 3602879701896397 / 9007199254740992"
  "double_plus (3602879701896397 / 9007199254740992) ex_tenth = 1 / 2"
  "double_plus (1 / 2) ex_tenth = 5404319552844595 / 9007199254740992"
  "double_plus (5404319552844595 / 9007199254740992) ex_tenth = 3152519739159347 / 4503599627370496"
  "double_plus (3152519739159347 / 4503599627370496) ex_tenth = 7205759403792793 / 9007199254740992"
  "double_plus (7205759403792793 / 9007199254740992) ex_tenth = 2026619832316723 / 2251799813685248"
  "double_plus (2026619832316723 / 2251799813685248) ex_tenth = 9007199254740991 / 9007199254740992"
proof -
  have e0: "double_exponent (0 + 3602879701896397 / 36028797018963968) = - 4"
    by (rule double_exponent_eq) (simp_all add: power_int_minus)
  have e1: "double_exponent (3602879701896397 / 36028797018963968 + 3602879701896397 / 36028797018963968) = - 3"
    by (rule double_exponent_eq) (simp_all add: power_int_minus)
  have e2: "double_exponent (3602879701896397 / 18014398509481984 + 3602879701896397 / 36028797018963968) = - 2"
    by (rule double_exponent_eq) (simp_all add: power_int_minus)
  have e3: "double_exponent (1351079888211149 / 4503599627370496 + 3602879701896397 / 36028797018963968) = - 2"
    by (rule double_exponent_eq) (simp_all add: power_int_minus)
  have e4: "double_exponent (3602879701896397 / 9007199254740992 + 3602879701896397 / 36028797018963968) = - 1"
    by (rule double_exponent_eq) (simp_all add: power_int_minus)
  have e5: "double_exponent (1 / 2 + 3602879701896397 / 36028797018963968) = - 1"
    by (rule double_exponent_eq) (simp_all add: power_int_minus)
  have e6: "double_exponent (5404319552844595 / 9007199254740992 + 3602879701896397 / 36028797018963968) = - 1"
    by (rule double_exponent_eq) (simp_all add: power_int_minus)
  have e7: "double_exponent (3152519739159347 / 4503599627370496 + 3602879701896397 / 36028797018963968) = - 1"
    by (rule double_exponent_eq) (simp_all add: power_int_minus)
  have e8: "double_exponent (7205759403792793 / 9007199254740992 + 3602879701896397 / 36028797018963968) = - 1"
    by (rule double_exponent_eq) (simp_all add: power_int_minus)
  have e9: "double_exponent (2026619832316723 / 2251799813685248 + 3602879701896397 / 36028797018963968) = - 1"
    by (rule double_exponent_eq) (simp_all add: power_int_minus)
  show "double_plus (0) ex_tenth = 3602879701896397 / 36028797018963968"
    using e0 by (simp add: ex_tenth_def double_plus_defs)
  show "double_plus (3602879701896397 / 36028797018963968) ex_tenth = 3602879701896397 / 18014398509481984"
    using e1 by (simp add: ex_tenth_def double_plus_defs)
  show "double_plus (3602879701896397 / 18014398509481984) ex_tenth = 1351079888211149 / 4503599627370496"
    using e2 by (simp add: ex_tenth_def double_plus_defs)
  show "double_plus (1351079888211149 / 4503599627370496) ex_tenth = 3602879701896397 / 9007199254740992"
    using e3 by (simp add: ex_tenth_def double_plus_defs)
  show "double_plus (3602879701896397 / 9007199254740992) ex_tenth = 1 / 2"
    using e4 by (simp add: ex_tenth_def double_plus_defs)
  show "double_plus (1 / 2) ex_tenth = 5404319552844595 / 9007199254740992"
    using e5 by (simp add: ex_tenth_def double_plus_defs)
  show "double_plus (5404319552844595 / 9007199254740992) ex_tenth = 3152519739159347 / 4503599627370496"
    using e6 by (simp add: ex_tenth_def double_plus_defs)
  show "double_plus (3152519739159347 / 4503599627370496) ex_tenth = 7205759403792793 / 9007199254740992"
    using e7 by (simp add: ex_tenth_def double_plus_defs)
  show "double_plus (7205759403792793 / 9007199254740992) ex_tenth = 2026619832316723 / 2251799813685248"
    using e8 by (simp add: ex_tenth_def double_plus_defs)
  show "double_plus (2026619832316723 / 2251799813685248) ex_tenth = 9007199254740991 / 9007199254740992"
    using e9 by (simp add: ex_tenth_def double_plus_defs)
qed

lemma ex_tenth_product:
  "double_round (0 + 10 * ex_tenth) = 1"
proof -
  have "double_exponent (0 + 10 * ex_tenth) = 0"
    by (rule double_exponent_eq) (simp_all add: ex_tenth_def)
  then show ?thesis
    by (simp add: ex_tenth_def double_round_def round_half_even_def Let_def power_int_minus)
qed


section \<open>Properties of Euler.cc\<close>

lemma advance_stepper: "stepper (advance hp) = stepper hp"
  by (simp add: advance_def Let_def split: prod.splits)

lemma advance_geom:
  "geom (advance hp) =
     (if isStationary (getGeometry (model (stepper hp))) (geom hp) then geom hp
      else moveBodies (getGeometry (model (stepper hp))) (time (state hp)) (geom hp))"
  by (simp add: advance_def Let_def split: prod.splits)

lemma advance_state:
  "state (advance hp) =
     (let e = stepper hp; x = state hp;
          sol = solve (solver e) (rhs_a e x)
                  (getVelocities (getGeometry (model e)) (geom (advance hp))) (gamma x) (f x)
      in x\<lparr>gamma := fst sol, f := snd sol, q := computeFlux (model e) (fst sol),
           time := double_plus (time x) (timestep e)\<rparr>)"
  by (simp add: advance_geom)
     (simp add: advance_def rhs_a_def Let_def split: prod.splits)

lemma advance_calls:
  "calls (advance hp) =
     (let e = stepper hp; x = state hp; m = model e;
          b = getVelocities (getGeometry m) (geom (advance hp));
          sol = solve (solver e) (rhs_a e x) b (gamma x) (f x)
      in calls hp
         @ (if isStationary (getGeometry m) (geom hp) then []
            else [Call_moveBodies (time x)])
         @ [Call_S (gamma x),
            Call_Sinv (field_times_eq (S m (gamma x)) (linearTermEigenvalues e)),
            Call_nonlinear x, Call_getVelocities, Call_solve (rhs_a e x) b,
            Call_computeFlux (fst sol)])"
  by (simp add: advance_geom)
     (simp add: advance_def rhs_a_def Let_def split: prod.splits)

lemma new_calls_eq:
  "new_calls hp =
     (let e = stepper hp; x = state hp; m = model e;
          b = getVelocities (getGeometry m) (geom (advance hp));
          sol = solve (solver e) (rhs_a e x) b (gamma x) (f x)
      in (if isStationary (getGeometry m) (geom hp) then []
          else [Call_moveBodies (time x)])
         @ [Call_S (gamma x),
            Call_Sinv (field_times_eq (S m (gamma x)) (linearTermEigenvalues e)),
            Call_nonlinear x, Call_getVelocities, Call_solve (rhs_a e x) b,
            Call_computeFlux (fst sol)])"
  by (simp add: new_calls_def advance_calls Let_def)

lemma advance_n_Suc: "advance_n (Suc n) hp = advance (advance_n n hp)"
  by (induction n arbitrary: hp) simp_all

lemma advance_n_stepper: "stepper (advance_n n hp) = stepper hp"
  by (induction n arbitrary: hp) (simp_all add: advance_stepper)

lemma advance_time:
  "time (state (advance hp)) = double_plus (time (state hp)) (timestep (stepper hp))"
  by (simp add: advance_state Let_def)

lemma advance_n_time:
  "time (state (advance_n n hp)) = time_after n (timestep (stepper hp)) (time (state hp))"
  by (induction n arbitrary: hp) (simp_all add: advance_time advance_stepper)

lemma contract_advance_time:
  "time (state (fst (contract_advance stages (hp, hist)))) =
     double_plus (time (state hp)) (timestep (stepper hp))"
  by (simp add: contract_advance_def Let_def split: prod.splits)

lemma contract_advance_stepper:
  "stepper (fst (contract_advance stages (hp, hist))) = stepper hp"
  by (simp add: contract_advance_def Let_def split: prod.splits)

lemma scheme_advance_time:
  "time (state (fst (scheme_advance sch (hp, hist)))) =
     double_plus (time (state hp)) (timestep (stepper hp))"
  by (cases sch) (simp_all add: advance_time contract_advance_time)

lemma scheme_advance_stepper:
  "stepper (fst (scheme_advance sch (hp, hist))) = stepper hp"
  by (cases sch) (simp_all add: advance_stepper contract_advance_stepper)

lemma scheme_advance_n_time:
  "time (state (fst (scheme_advance_n sch n (hp, hist)))) =
     time_after n (timestep (stepper hp)) (time (state hp))"
proof (induction n arbitrary: hp hist)
  case 0
  then show ?case by simp
next
  case (Suc n)
  obtain hp' hist' where step: "scheme_advance sch (hp, hist) = (hp', hist')"
    by (cases "scheme_advance sch (hp, hist)")
  have "time (state hp') = double_plus (time (state hp)) (timestep (stepper hp))"
    "stepper hp' = stepper hp"
    using scheme_advance_time [of sch hp hist] scheme_advance_stepper [of sch hp hist]
    by (simp_all add: step)
  with Suc.IH [of hp' hist'] show ?case by (simp add: step)
qed

lemma ex_heap_simps:
  "stepper (ex_heap s) = Euler_new ex_createSolver (ex_model s) (1 / 2)"
  "geom (ex_heap s) = 0"
  "state (ex_heap s) = ex_state"
  "calls (ex_heap s) = []"
  by (simp_all add: ex_heap_def)

lemma ex_stepper_simps:
  "model (Euler_new ex_createSolver (ex_model s) h) = ex_model s"
  "timestep (Euler_new ex_createSolver (ex_model s) h) = h"
  "solver (Euler_new ex_createSolver (ex_model s) h) = ex_createSolver h"
  "linearTermEigenvalues (Euler_new ex_createSolver (ex_model s) h) =
     \<lparr>Ngrid = 1, cells = [- 2 * (h / 2) + 1]\<rparr>"
  by (simp_all add: Euler_new_def ex_model_def scalar_times_eq_def scalar_plus_eq_def)

lemma ex_model_simps:
  "isStationary (getGeometry (ex_model s)) g = s"
  "moveBodies (getGeometry (ex_model s)) t g = t"
  "getVelocities (getGeometry (ex_model s)) g = [g]"
  "S (ex_model s) a = a"
  "Sinv (ex_model s) a = a"
  "nonlinear (ex_model s) x = q x"
  "computeFlux (ex_model s) a = scalar_times_eq a 2"
  by (simp_all add: ex_model_def ex_geometry_def)

lemma ex_rhs_a:
  "rhs_a (Euler_new ex_createSolver (ex_model s) (1 / 2)) ex_state = \<lparr>Ngrid = 1, cells = [5]\<rparr>"
  by (simp add: rhs_a_def ex_stepper_simps ex_model_simps ex_state_def field_times_eq_def
      field_plus_eq_def double_times_field_def)

lemma ex_advance_geom: "geom (advance (ex_heap s)) = (if s then 0 else 2)"
  by (simp add: advance_geom ex_heap_simps ex_stepper_simps ex_model_simps ex_state_def)

lemma ex_advance_state:
  "state (advance (ex_heap s)) =
     \<lparr>q = \<lparr>Ngrid = 1, cells = [10]\<rparr>, gamma = \<lparr>Ngrid = 1, cells = [5]\<rparr>,
      f = [if s then 0 else 2], time = 5 / 2\<rparr>"
  by (simp add: advance_state ex_advance_geom ex_heap_simps ex_rhs_a ex_stepper_simps
      ex_model_simps ex_createSolver_def scalar_times_eq_def Let_def)
     (simp add: ex_state_def ex_half_steps)

lemma ex_new_calls:
  "new_calls (ex_heap s) =
     (if s then [] else [Call_moveBodies 2])
     @ [Call_S \<lparr>Ngrid = 1, cells = [4]\<rparr>, Call_Sinv \<lparr>Ngrid = 1, cells = [2]\<rparr>,
        Call_nonlinear ex_state, Call_getVelocities,
        Call_solve \<lparr>Ngrid = 1, cells = [5]\<rparr> [if s then 0 else 2],
        Call_computeFlux \<lparr>Ngrid = 1, cells = [5]\<rparr>]"
  by (simp add: new_calls_eq ex_advance_geom ex_heap_simps ex_rhs_a ex_stepper_simps
      ex_model_simps ex_createSolver_def Let_def)
     (simp add: ex_state_def field_times_eq_def)


subsection \<open>The step of the Euler scheme\<close>

text \<open>
  C4. For every state, \<^verbatim>\<open>Euler::advance\<close> computes the right-hand side
  a = Sinv(S(gamma) times the eigenvalue factor, elementwise) + h * nonlinear(x) and
  b = the boundary velocities, makes exactly one \<^verbatim>\<open>solve\<close> call, which yields the new
  circulation and boundary force, then recomputes the flux from the new circulation,
  then advances the time by the timestep, added as a double. The last two calls of the
  step are \<^verbatim>\<open>solve(a, b, ...)\<close> and \<^verbatim>\<open>computeFlux\<close>, and the nonlinear term is
  evaluated at the state the step started from.
\<close>

theorem Euler_advance_one_step:
  "state (advance hp) =
     (state hp)\<lparr>gamma := fst (solve (solver (stepper hp)) (rhs_a (stepper hp) (state hp))
                    (getVelocities (getGeometry (model (stepper hp))) (geom (advance hp)))
                    (gamma (state hp)) (f (state hp))),
                f := snd (solve (solver (stepper hp)) (rhs_a (stepper hp) (state hp))
                    (getVelocities (getGeometry (model (stepper hp))) (geom (advance hp)))
                    (gamma (state hp)) (f (state hp))),
                q := computeFlux (model (stepper hp)) (gamma (state (advance hp))),
                time := double_plus (time (state hp)) (timestep (stepper hp))\<rparr>
   \<and> filter is_solve (new_calls hp) =
       [Call_solve (rhs_a (stepper hp) (state hp))
          (getVelocities (getGeometry (model (stepper hp))) (geom (advance hp)))]
   \<and> drop (length (new_calls hp) - 2) (new_calls hp) =
       [Call_solve (rhs_a (stepper hp) (state hp))
          (getVelocities (getGeometry (model (stepper hp))) (geom (advance hp))),
        Call_computeFlux (gamma (state (advance hp)))]
   \<and> Call_nonlinear (state hp) \<in> set (new_calls hp)"
  by (simp add: advance_state new_calls_eq Let_def)

theorem Euler_advance_one_step_witness:
  "state (advance (ex_heap False)) =
     \<lparr>q = \<lparr>Ngrid = 1, cells = [10]\<rparr>, gamma = \<lparr>Ngrid = 1, cells = [5]\<rparr>, f = [2],
      time = 5 / 2\<rparr>
   \<and> filter is_solve (new_calls (ex_heap False)) = [Call_solve \<lparr>Ngrid = 1, cells = [5]\<rparr> [2]]"
  using Euler_advance_one_step [of "ex_heap False"]
  by (simp add: ex_advance_state ex_advance_geom ex_heap_simps ex_rhs_a ex_stepper_simps
      ex_model_simps)


subsection \<open>Time\<close>

text \<open>
  C6, as the spec states it: \<open>n\<close> calls of \<^verbatim>\<open>advance\<close> from time \<open>t0\<close> leave the time
  at \<open>t0 + n * h\<close>. The time is a double and each call adds \<open>h\<close> to it with one rounded
  addition. Ten Euler steps from time 0 with the double nearest to one tenth as the
  timestep leave the time at the double just below 1, which is neither the product
  \<open>10 * h\<close> nor the double nearest to it.
\<close>

theorem advance_time_product_counterexample:
  "time (state (advance_n 10 ex_heap_tenth)) = 9007199254740991 / 9007199254740992
   \<and> time (state (advance_n 10 ex_heap_tenth)) \<noteq>
       time (state ex_heap_tenth) + 10 * timestep (stepper ex_heap_tenth)
   \<and> time (state (advance_n 10 ex_heap_tenth)) \<noteq>
       double_round (time (state ex_heap_tenth) + 10 * timestep (stepper ex_heap_tenth))"
proof -
  have h: "timestep (stepper ex_heap_tenth) = ex_tenth" and t0: "time (state ex_heap_tenth) = 0"
    by (simp_all add: ex_heap_tenth_def ex_stepper_simps)
  have "time (state (advance_n 10 ex_heap_tenth)) = time_after 10 ex_tenth 0"
    by (simp only: advance_n_time h t0)
  also have "\<dots> = 9007199254740991 / 9007199254740992"
    by (simp add: eval_nat_numeral ex_tenth_steps)
  finally have v: "time (state (advance_n 10 ex_heap_tenth)) = 9007199254740991 / 9007199254740992" .
  show ?thesis
    unfolding v h t0 ex_tenth_product by (simp add: ex_tenth_def)
qed

text \<open>
  C6, amended. For every state and every scheme, \<^verbatim>\<open>advance\<close> increments the time of
  the state by the timestep \<open>h\<close> exactly once per call, with one addition of doubles, at
  the end of the call (the Euler step evaluates the nonlinear term at the state with the
  old time; the stages of the other schemes receive the state with the old time). Hence
  \<open>n\<close> calls from time \<open>t0\<close> leave the time at the result of \<open>n\<close> successive additions
  of \<open>h\<close> to \<open>t0\<close>, each rounded to a double, whichever scheme is used: \<open>t0 + n * h\<close> up
  to rounding. Euler is the step of Euler.cc; the other three schemes are the contract
  of the spec. The sums are taken to stay finite.
\<close>

theorem scheme_advance_increments_time:
  "(double_finite (time (state hp) + timestep (stepper hp)) \<longrightarrow>
      time (state (fst (scheme_advance sch (hp, hist)))) =
        double_plus (time (state hp)) (timestep (stepper hp)))
   \<and> (sums_finite n (timestep (stepper hp)) (time (state hp)) \<longrightarrow>
      time (state (fst (scheme_advance_n sch n (hp, hist)))) =
        time_after n (timestep (stepper hp)) (time (state hp)))
   \<and> fst (scheme_advance_n Euler_scheme n (hp, hist)) = advance_n n hp
   \<and> Call_nonlinear (state hp) \<in> set (new_calls hp)"
proof -
  have "fst (scheme_advance_n Euler_scheme k (h, hist)) = advance_n k h"
    for k and h :: "'a Heap"
    by (induction k arbitrary: h) simp_all
  then show ?thesis
    by (simp add: scheme_advance_time scheme_advance_n_time new_calls_eq Let_def)
qed

theorem scheme_advance_increments_time_witness:
  "sums_finite 3 (timestep (stepper (ex_heap False))) (time (state (ex_heap False)))
   \<and> time (state (advance_n 3 (ex_heap False))) = 7 / 2
   \<and> time (state (fst (scheme_advance_n (RungeKutta2_scheme ex_stages) 3
        (ex_heap False, ())))) = 7 / 2"
  using scheme_advance_increments_time [of "ex_heap False" Euler_scheme "()" 3]
    scheme_advance_increments_time [of "ex_heap False" "RungeKutta2_scheme ex_stages" "()" 3]
  by (simp add: ex_heap_simps ex_stepper_simps ex_state_def eval_nat_numeral ex_half_steps
      ex_half_finite)


subsection \<open>Flux\<close>

text \<open>
  C7. After every \<^verbatim>\<open>advance\<close> call, the flux \<^verbatim>\<open>q\<close> of the state is the flux that
  \<^verbatim>\<open>computeFlux\<close> gives for the circulation \<^verbatim>\<open>gamma\<close> of the state: after one call,
  and after any number of calls in sequence.
\<close>

theorem advance_flux_consistent:
  "q (state (advance hp)) = computeFlux (model (stepper hp)) (gamma (state (advance hp)))
   \<and> q (state (advance_n (Suc n) hp)) =
       computeFlux (model (stepper hp)) (gamma (state (advance_n (Suc n) hp)))"
proof -
  have one: "q (state (advance h)) = computeFlux (model (stepper h)) (gamma (state (advance h)))"
    for h :: "'a Heap"
    by (simp add: advance_state Let_def)
  have "q (state (advance (advance_n n hp))) =
          computeFlux (model (stepper (advance_n n hp))) (gamma (state (advance (advance_n n hp))))"
    by (rule one)
  then show ?thesis
    by (simp add: one advance_n_Suc advance_n_stepper del: advance_n.simps)
qed

theorem advance_flux_consistent_witness:
  "q (state (advance (ex_heap False))) = \<lparr>Ngrid = 1, cells = [10]\<rparr>
   \<and> gamma (state (advance (ex_heap False))) = \<lparr>Ngrid = 1, cells = [5]\<rparr>"
  using advance_flux_consistent [of "ex_heap False" 0]
  by (simp add: ex_advance_state)

subsection \<open>Construction\<close>

text \<open>
  C5. For every model and timestep \<open>h\<close>, the constructor sets the eigenvalue field to
  1 + (h / 2) * Lambda, entry by entry, where Lambda is \<^verbatim>\<open>getLambda()\<close>, and creates
  the solver for that same \<open>h\<close>. No \<^verbatim>\<open>advance\<close> call changes the stepper, and every
  step multiplies \<^verbatim>\<open>S(gamma)\<close> by this same field.
\<close>

theorem Euler_new_eigenvalues:
  "linearTermEigenvalues (Euler_new createSolver m h) =
     (getLambda m)\<lparr>cells := map (\<lambda>l. 1 + (h / 2) * l) (cells (getLambda m))\<rparr>
   \<and> solver (Euler_new createSolver m h) = createSolver h
   \<and> timestep (Euler_new createSolver m h) = h
   \<and> model (Euler_new createSolver m h) = m
   \<and> stepper (advance_n n (hp\<lparr>stepper := Euler_new createSolver m h\<rparr>)) =
       Euler_new createSolver m h
   \<and> Call_Sinv
       (field_times_eq
          (S m (gamma (state (advance_n n (hp\<lparr>stepper := Euler_new createSolver m h\<rparr>)))))
          ((getLambda m)\<lparr>cells := map (\<lambda>l. 1 + (h / 2) * l) (cells (getLambda m))\<rparr>))
       \<in> set (new_calls (advance_n n (hp\<lparr>stepper := Euler_new createSolver m h\<rparr>)))"
proof -
  have eig: "linearTermEigenvalues (Euler_new createSolver m h) =
     (getLambda m)\<lparr>cells := map (\<lambda>l. 1 + (h / 2) * l) (cells (getLambda m))\<rparr>"
    by (simp add: Euler_new_def scalar_times_eq_def scalar_plus_eq_def Let_def comp_def
        algebra_simps)
  have rest: "solver (Euler_new createSolver m h) = createSolver h"
    "timestep (Euler_new createSolver m h) = h" "model (Euler_new createSolver m h) = m"
    by (simp_all add: Euler_new_def Let_def)
  have st: "stepper (advance_n n (hp\<lparr>stepper := Euler_new createSolver m h\<rparr>)) =
       Euler_new createSolver m h"
    by (simp add: advance_n_stepper)
  have "Call_Sinv
       (field_times_eq
          (S m (gamma (state (advance_n n (hp\<lparr>stepper := Euler_new createSolver m h\<rparr>)))))
          (linearTermEigenvalues (Euler_new createSolver m h)))
       \<in> set (new_calls (advance_n n (hp\<lparr>stepper := Euler_new createSolver m h\<rparr>)))"
    by (simp add: new_calls_eq st rest Let_def)
  with eig rest st show ?thesis by simp
qed

theorem Euler_new_eigenvalues_witness:
  "linearTermEigenvalues (Euler_new ex_createSolver (ex_model False) (1 / 2)) =
     \<lparr>Ngrid = 1, cells = [1 / 2]\<rparr>"
  using Euler_new_eigenvalues [of ex_createSolver "ex_model False" "1 / 2" 0 "ex_heap False"]
  by (simp add: ex_model_def)


subsection \<open>The geometry\<close>

text \<open>
  C1. The claim: on a stepper whose geometry is not stationary, \<^verbatim>\<open>advance(x)\<close> moves the
  bodies to the time at the end of the step, \<open>x.time + h\<close>, before the boundary
  velocities \<open>b\<close> are evaluated. The code calls \<^verbatim>\<open>moveBodies(x.time)\<close>, with the time at
  the start of the step. Here the step starts at time 2 with \<open>h = 1 / 2\<close>: the bodies
  are moved to time 2, not to 5 / 2, and \<^verbatim>\<open>solve\<close> receives the velocity [2] of time 2.
\<close>

theorem advance_moves_bodies_to_start_time:
  "\<not> isStationary (getGeometry (model (stepper (ex_heap False)))) (geom (ex_heap False))
   \<and> time (state (ex_heap False)) + timestep (stepper (ex_heap False)) = 5 / 2
   \<and> new_calls (ex_heap False) =
       [Call_moveBodies 2, Call_S \<lparr>Ngrid = 1, cells = [4]\<rparr>,
        Call_Sinv \<lparr>Ngrid = 1, cells = [2]\<rparr>, Call_nonlinear ex_state, Call_getVelocities,
        Call_solve \<lparr>Ngrid = 1, cells = [5]\<rparr> [2], Call_computeFlux \<lparr>Ngrid = 1, cells = [5]\<rparr>]
   \<and> geom (advance (ex_heap False)) = 2"
  by (simp add: ex_new_calls ex_advance_geom ex_heap_simps ex_stepper_simps ex_model_simps)
     (simp add: ex_state_def)

text \<open>
  C3, as the spec states it: no \<^verbatim>\<open>advance\<close> repositions the marker points of the
  Geometry. It fails on a geometry that is not stationary.
\<close>

theorem advance_geometry_unchanged_counterexample:
  "geom (advance (ex_heap False)) \<noteq> geom (ex_heap False)"
  by (simp add: ex_advance_geom ex_heap_simps)

text \<open>
  C3, amended. \<^verbatim>\<open>advance\<close> leaves a stationary Geometry as it is and makes no
  \<^verbatim>\<open>moveBodies\<close> call on it; on a Geometry that is not stationary it makes exactly one
  \<^verbatim>\<open>moveBodies\<close> call, and the Geometry is left as that call leaves it.
\<close>

theorem advance_moves_only_moving_bodies:
  "(isStationary (getGeometry (model (stepper hp))) (geom hp) \<longrightarrow>
      geom (advance hp) = geom hp \<and> filter is_moveBodies (new_calls hp) = [])
   \<and> (\<not> isStationary (getGeometry (model (stepper hp))) (geom hp) \<longrightarrow>
      (\<exists>t. filter is_moveBodies (new_calls hp) = [Call_moveBodies t]
          \<and> geom (advance hp) = moveBodies (getGeometry (model (stepper hp))) t (geom hp)))"
  by (simp add: advance_geom new_calls_eq Let_def)

theorem advance_moves_only_moving_bodies_witness:
  "isStationary (getGeometry (model (stepper (ex_heap True)))) (geom (ex_heap True))
   \<and> geom (advance (ex_heap True)) = geom (ex_heap True)
   \<and> filter is_moveBodies (new_calls (ex_heap True)) = []
   \<and> \<not> isStationary (getGeometry (model (stepper (ex_heap False)))) (geom (ex_heap False))
   \<and> length (filter is_moveBodies (new_calls (ex_heap False))) = 1"
  using advance_moves_only_moving_bodies [of "ex_heap True"]
    advance_moves_only_moving_bodies [of "ex_heap False"]
  by (auto simp add: ex_heap_simps ex_stepper_simps ex_model_simps)


section \<open>Properties of ibpm.cc\<close>

subsection \<open>The stages of \<^verbatim>\<open>main\<close>\<close>

lemma integrate_eq_aux:
  assumes "n < INT_MAX"
  shows "integrate adv n i (x, k) = Inr ((adv ^^ nat (n + 1 - i)) x, k + nat (n + 1 - i))"
  using assms
proof (induction adv n i "(x, k)" arbitrary: x k rule: integrate.induct)
  case (1 adv n i x k)
  show ?case
  proof (cases "i \<le> n")
    case True
    with "1.prems" have ne: "i \<noteq> INT_MAX" by simp
    from True have "nat (n + 1 - i) = Suc (nat (n + 1 - (i + 1)))" by simp
    with True ne "1.hyps" [OF True ne "1.prems"] show ?thesis
      by (subst integrate.simps) (simp add: funpow_swap1)
  next
    case False
    then show ?thesis by (subst integrate.simps) simp
  qed
qed

lemma integrate_from_1:
  "n < INT_MAX \<Longrightarrow> integrate adv n 1 (x, 0) = Inr ((adv ^^ nat n) x, nat n)"
  by (simp add: integrate_eq_aux)

lemma str2model_out: "fst (str2model env s) \<noteq> INVALID \<Longrightarrow> snd (str2model env s) = []"
  by (simp add: str2model_def Let_def split: if_splits)

lemma str2model_eq: "fst (str2model env s) = mt \<Longrightarrow> mt \<noteq> INVALID \<Longrightarrow> str2model env s = (mt, [])"
  using str2model_out [of env s] by (cases "str2model env s") simp

lemma GetSolver_known:
  "known_scheme env s \<Longrightarrow> \<exists>ts. GetSolver env m h s out = Inr ts"
  by (auto simp add: GetSolver_def known_scheme_def Let_def)

lemma main_of_before_loop_Inl: "before_loop env c = Inl h \<Longrightarrow> main env c = Halted h"
  by (simp add: main_def)

lemma main_of_before_loop_Inr:
  "before_loop env c = Inr r \<Longrightarrow> numSteps c < INT_MAX \<Longrightarrow>
   main env c =
     Returned 0 (ready_out r) (ready_model r) (ready_solver r)
       ((TimeStepper_advance env (ready_solver r) ^^ nat (numSteps c)) (ready_x r))
       (nat (numSteps c))"
  by (simp add: main_def integrate_from_1)

lemma before_loop_stages:
  assumes "str2model env (modelName c) = (mt, [])" "mt \<noteq> INVALID" "inputIsValid c" "\<not> helpFlag c"
    "check_baseflow_parameters mt c = None" "Geometry_load env (geomFile c) = Some n"
    "setup_model env c mt n [] = Inr (m, x00)" "GetSolver env m (dt c) (integratorType c) [] = Inr ts"
  shows "before_loop env c =
     (case load_initial_condition env c mt x00 n [] of
        Inl h \<Rightarrow> Inl h
      | Inr (x, out) \<Rightarrow> Inr \<lparr>ready_model = m, ready_solver = ts, ready_x00 = x00,
                             ready_x = x, ready_out = out\<rparr>)"
  using assms by (simp add: before_loop_def)

lemma check_baseflow_parameters_Some:
  assumes "(mt = LINEAR \<or> mt = ADJOINT) \<and> (baseFlow c = [] \<or> periodBaseFlowName c \<noteq> [])
         \<or> mt = LINEARPERIODIC \<and> (periodBaseFlowName c = [] \<or> baseFlow c \<noteq> [])"
  shows "check_baseflow_parameters mt c =
     Some (if mt \<noteq> LINEARPERIODIC then
             if baseFlow c = [] then
               ''ERROR: for linear or adjoint models, must specify a base flow''
             else ''WARNING: for linear or adjoint models, a periodic base flow is not needed''
           else if periodBaseFlowName c = [] then
             ''ERROR: for linear periodic model, must specify a periodic base flow''
           else ''WARNING: for linear periodic model, a single baseflow is not needed'')"
  using assms by (auto simp add: check_baseflow_parameters_def)


lemma lic_indep:
  "load_initial_condition env (c\<lparr>baseFlow := b, periodBaseFlowName := p\<rparr>) mt x00 n out
   = load_initial_condition env c mt x00 n out"
  by (simp add: load_initial_condition_def cong: if_cong)

lemma setup_nl: "setup_model env c NONLINEAR n out = Inr (NonlinearNavierStokes, State_new env n)"
  by (simp add: setup_model_def)

lemma check_nl: "check_baseflow_parameters NONLINEAR c = None"
  by (simp add: check_baseflow_parameters_def)


lemma before_loop_indep_nl:
  assumes "str2model env (modelName c) = (NONLINEAR, [])"
  shows "before_loop env (c\<lparr>baseFlow := b, periodBaseFlowName := p\<rparr>) = before_loop env c"
  using assms
  by (simp add: before_loop_def check_nl setup_nl lic_indep
      cong: option.case_cong sum.case_cong)

lemma before_loop_bad_parameters:
  assumes "str2model env (modelName c) = (mt, [])" "mt \<noteq> INVALID"
    "check_baseflow_parameters mt c = Some msg"
  shows "before_loop env c =
           Inl (Exit 1 (if \<not> inputIsValid c \<or> helpFlag c then printUsage env else [msg]))"
  using assms by (simp add: before_loop_def)

lemma lic_nonlinear_exit:
  assumes "subtractBaseflow c" "icFile c \<noteq> []"
  shows "load_initial_condition env c NONLINEAR x00 n out =
     Inl (Exit 1 (out @ [''Loading initial condition from file: '' @ icFile c]
                   @ (if fst (State_load env (icFile c) (zero_state env n)) then []
                      else [''  (failed: using zero initial condition)''])
                   @ [''  Subtract initial condition by baseflow to form a linear initial perturbation'',
                      ''Flag subbaseflow should be true only for linear cases'']))"
  using assms by (simp add: load_initial_condition_def Let_def split: prod.splits)

lemma lic_no_subtract:
  assumes "\<not> (subtractBaseflow c \<and> icFile c \<noteq> [])"
  shows "load_initial_condition env c mt x00 n out =
     Inr (if icFile c = [] then (zero_state env n, out @ [''Using zero initial condition''])
          else (snd (State_load env (icFile c) (zero_state env n)),
                out @ [''Loading initial condition from file: '' @ icFile c]
                  @ (if fst (State_load env (icFile c) (zero_state env n)) then []
                     else [''  (failed: using zero initial condition)''])))"
  using assms by (auto simp add: load_initial_condition_def Let_def split: prod.splits)

lemma lic_subtract:
  assumes "mt \<noteq> NONLINEAR" "subtractBaseflow c" "icFile c \<noteq> []"
    "Ngrid (q (snd (State_load env (icFile c) (zero_state env n)))) = Ngrid (q x00)"
    "Ngrid (gamma (snd (State_load env (icFile c) (zero_state env n)))) = Ngrid (gamma x00)"
  shows "load_initial_condition env c mt x00 n out =
     Inr ((snd (State_load env (icFile c) (zero_state env n)))
            \<lparr>q := field_minus_eq (q (snd (State_load env (icFile c) (zero_state env n))))
                    (q x00),
             gamma := field_minus_eq
                    (gamma (snd (State_load env (icFile c) (zero_state env n)))) (gamma x00),
             f := replicate (length (f (snd (State_load env (icFile c) (zero_state env n)))))
                    0\<rparr>,
          out @ [''Loading initial condition from file: '' @ icFile c]
            @ (if fst (State_load env (icFile c) (zero_state env n)) then []
               else [''  (failed: using zero initial condition)''])
            @ [''  Subtract initial condition by baseflow to form a linear initial perturbation''])"
  using assms
  by (simp add: load_initial_condition_def bv_assign_def map_replicate_const Let_def
      case_prod_beta)

lemma zero_state_zero:
  "cells (gamma (zero_state env n)) = replicate (length (cells (gamma (State_new env n)))) 0"
  "f (zero_state env n) = replicate (length (f (State_new env n))) 0"
  "cells (q (zero_state env n)) = replicate (length (cells (q (State_new env n)))) 0"
  by (simp_all add: zero_state_def field_assign_def bv_assign_def Let_def map_replicate_const)

lemmas ex_run_defs =
  main_def before_loop_def str2model_def ascii_lowercase_def ex_config_def
  check_baseflow_parameters_def ex_env_def setup_model_def GetSolver_def
  load_initial_condition_def zero_state_def ex_files_def field_assign_def bv_assign_def
  field_minus_eq_def known_scheme_def Let_def INT_MAX_def INT_MIN_def integrate_from_1
  numeral_2_eq_2


subsection \<open>Base-flow parameters\<close>

text \<open>
  C8, as the spec states it: every configuration with a periodic base flow supplied for a
  variant that is not periodic ends in a configuration error before any timestepping.
  The Nonlinear model is such a variant; for it the base-flow parameters are not
  checked, and the run with a periodic base flow named completes its two steps.
\<close>

theorem incompatible_base_flow_counterexample:
  "main ex_env (ex_config\<lparr>periodBaseFlowName := ''p%05d.bin''\<rparr>) =
     Returned 0 [''Using zero initial condition''] NonlinearNavierStokes
       (New_RungeKutta2 NonlinearNavierStokes (1 / 100))
       \<lparr>q = \<lparr>Ngrid = 1, cells = [0]\<rparr>, gamma = \<lparr>Ngrid = 1, cells = [0]\<rparr>, f = [0],
        time = 2\<rparr> 2"
  by (simp add: ex_run_defs)

text \<open>
  C8, amended. For every configuration with the Linear or Adjoint model and no base flow
  or with a periodic base flow, and for every configuration with the LinearPeriodic
  model and no periodic base flow or with a single base flow, the program prints a
  diagnostic (the usage text when the command line is invalid or help is asked for) and
  exits with status 1 before any \<^verbatim>\<open>advance\<close> call. For the Nonlinear model the two
  base-flow parameters are ignored: the run is the same whatever they are.
\<close>

theorem incompatible_base_flow_exits:
  assumes mt: "fst (str2model env (modelName c)) = mt"
  shows "((mt = LINEAR \<or> mt = ADJOINT) \<and> (baseFlow c = [] \<or> periodBaseFlowName c \<noteq> [])
          \<or> mt = LINEARPERIODIC \<and> (periodBaseFlowName c = [] \<or> baseFlow c \<noteq> []) \<longrightarrow>
          main env c =
            Halted (Exit 1
              (if \<not> inputIsValid c \<or> helpFlag c then printUsage env
               else if mt \<noteq> LINEARPERIODIC then
                 if baseFlow c = [] then
                   [''ERROR: for linear or adjoint models, must specify a base flow'']
                 else
                   [''WARNING: for linear or adjoint models, a periodic base flow is not needed'']
               else if periodBaseFlowName c = [] then
                 [''ERROR: for linear periodic model, must specify a periodic base flow'']
               else [''WARNING: for linear periodic model, a single baseflow is not needed'']))
          \<and> advance_calls (main env c) = 0)
       \<and> (mt = NONLINEAR \<longrightarrow>
            main env (c\<lparr>baseFlow := b, periodBaseFlowName := p\<rparr>) = main env c)"
proof (rule conjI; rule impI)
  assume bad: "(mt = LINEAR \<or> mt = ADJOINT) \<and> (baseFlow c = [] \<or> periodBaseFlowName c \<noteq> [])
          \<or> mt = LINEARPERIODIC \<and> (periodBaseFlowName c = [] \<or> baseFlow c \<noteq> [])"
  then have ok: "mt \<noteq> INVALID" by auto
  with mt have s: "str2model env (modelName c) = (mt, [])" by (rule str2model_eq)
  have "before_loop env c =
      Inl (Exit 1 (if \<not> inputIsValid c \<or> helpFlag c then printUsage env
                   else [the (check_baseflow_parameters mt c)]))"
    using before_loop_bad_parameters [OF s ok check_baseflow_parameters_Some [OF bad]]
      check_baseflow_parameters_Some [OF bad]
    by (simp only: option.sel)
  then have "main env c =
      Halted (Exit 1 (if \<not> inputIsValid c \<or> helpFlag c then printUsage env
                      else [the (check_baseflow_parameters mt c)]))"
    by (rule main_of_before_loop_Inl)
  then show "main env c =
            Halted (Exit 1
              (if \<not> inputIsValid c \<or> helpFlag c then printUsage env
               else if mt \<noteq> LINEARPERIODIC then
                 if baseFlow c = [] then
                   [''ERROR: for linear or adjoint models, must specify a base flow'']
                 else
                   [''WARNING: for linear or adjoint models, a periodic base flow is not needed'']
               else if periodBaseFlowName c = [] then
                 [''ERROR: for linear periodic model, must specify a periodic base flow'']
               else [''WARNING: for linear periodic model, a single baseflow is not needed'']))
          \<and> advance_calls (main env c) = 0"
    by (simp add: check_baseflow_parameters_Some [OF bad])
next
  assume nl: "mt = NONLINEAR"
  with mt have s: "str2model env (modelName c) = (NONLINEAR, [])"
    using str2model_eq [of env "modelName c" NONLINEAR] by simp
  show "main env (c\<lparr>baseFlow := b, periodBaseFlowName := p\<rparr>) = main env c"
    by (simp add: main_def before_loop_indep_nl [OF s] cong: sum.case_cong)
qed

theorem incompatible_base_flow_exits_witness:
  "main ex_env (ex_config\<lparr>modelName := ''Linear''\<rparr>) =
     Halted (Exit 1 [''ERROR: for linear or adjoint models, must specify a base flow''])
   \<and> main ex_env (ex_config\<lparr>modelName := ''linearperiodic'', baseFlow := ''base.bin'',
                               periodBaseFlowName := ''p%05d.bin''\<rparr>) =
     Halted (Exit 1 [''WARNING: for linear periodic model, a single baseflow is not needed''])"
  using incompatible_base_flow_exits
      [where c = "ex_config\<lparr>modelName := ''Linear''\<rparr>" and mt = LINEAR and env = ex_env
         and b = "[]" and p = "[]"]
    incompatible_base_flow_exits
      [where c = "ex_config\<lparr>modelName := ''linearperiodic'', baseFlow := ''base.bin'',
                             periodBaseFlowName := ''p%05d.bin''\<rparr>"
         and mt = LINEARPERIODIC and env = ex_env and b = "[]" and p = "[]"]
  by (simp add: str2model_def ascii_lowercase_def ex_config_def ex_env_def)


subsection \<open>Loading the base flow\<close>

text \<open>
  C2. The claim: with the Linear, Adjoint or LinearizedPeriodic model, a base-flow file
  that fails to load ends the run with a diagnostic before the integration loop. The
  code calls \<^verbatim>\<open>x00.load(baseFlow)\<close> and drops the value it returns. Here the Linear
  model is selected and the base-flow file is missing: \<^verbatim>\<open>load\<close> returns false and
  leaves the new State as it was, the model is constructed from that State, and the run
  makes its two steps and returns 0.
\<close>

theorem base_flow_load_failure_continues:
  "\<not> fst (State_load ex_env ''missing.bin'' (State_new ex_env 1))
   \<and> main ex_env (ex_config\<lparr>modelName := ''linear'', baseFlow := ''missing.bin''\<rparr>) =
       Returned 0 [''Using zero initial condition'']
         (LinearizedNavierStokes
            \<lparr>q = \<lparr>Ngrid = 1, cells = [8]\<rparr>, gamma = \<lparr>Ngrid = 1, cells = [8]\<rparr>, f = [8],
             time = 0\<rparr>)
         (New_RungeKutta2
            (LinearizedNavierStokes
               \<lparr>q = \<lparr>Ngrid = 1, cells = [8]\<rparr>, gamma = \<lparr>Ngrid = 1, cells = [8]\<rparr>,
                f = [8], time = 0\<rparr>)
            (1 / 100))
         \<lparr>q = \<lparr>Ngrid = 1, cells = [0]\<rparr>, gamma = \<lparr>Ngrid = 1, cells = [0]\<rparr>, f = [0],
          time = 2\<rparr> 2"
  by (simp add: ex_run_defs)


subsection \<open>The initial condition\<close>

text \<open>
  C9, as the spec states it: when the initial-condition file fails to load, the run goes
  on with a zero initial condition. With the subbaseflow flag set this fails: for the
  Linear model the base flow is subtracted from the zero State, so the run starts from
  minus the base flow; for the Nonlinear model the run ends with exit status 1.
\<close>

theorem failed_initial_condition_counterexample:
  "\<not> fst (State_load ex_env ''missing.bin'' (zero_state ex_env 1))
   \<and> before_loop ex_env
       (ex_config\<lparr>modelName := ''linear'', baseFlow := ''base.bin'', icFile := ''missing.bin'',
                   subtractBaseflow := True, integratorType := ''euler''\<rparr>) =
       Inr \<lparr>ready_model = LinearizedNavierStokes
               \<lparr>q = \<lparr>Ngrid = 1, cells = [3]\<rparr>, gamma = \<lparr>Ngrid = 1, cells = [1]\<rparr>, f = [7],
                time = 0\<rparr>,
            ready_solver = New_Euler
               (LinearizedNavierStokes
                  \<lparr>q = \<lparr>Ngrid = 1, cells = [3]\<rparr>, gamma = \<lparr>Ngrid = 1, cells = [1]\<rparr>,
                   f = [7], time = 0\<rparr>) (1 / 100),
            ready_x00 = \<lparr>q = \<lparr>Ngrid = 1, cells = [3]\<rparr>, gamma = \<lparr>Ngrid = 1, cells = [1]\<rparr>,
                         f = [7], time = 0\<rparr>,
            ready_x = \<lparr>q = \<lparr>Ngrid = 1, cells = [- 3]\<rparr>, gamma = \<lparr>Ngrid = 1, cells = [- 1]\<rparr>,
                       f = [0], time = 0\<rparr>,
            ready_out =
              [''Loading initial condition from file: missing.bin'',
               ''  (failed: using zero initial condition)'',
               ''  Subtract initial condition by baseflow to form a linear initial perturbation'']\<rparr>
   \<and> main ex_env (ex_config\<lparr>icFile := ''missing.bin'', subtractBaseflow := True\<rparr>) =
       Halted (Exit 1
         [''Loading initial condition from file: missing.bin'',
          ''  (failed: using zero initial condition)'',
          ''  Subtract initial condition by baseflow to form a linear initial perturbation'',
          ''Flag subbaseflow should be true only for linear cases''])"
  by (simp add: ex_run_defs)

text \<open>
  C9, amended. If loading the initial-condition file fails, leaving the State as it was,
  and the subbaseflow flag is not set, the run is not aborted: the failure is reported
  and the run enters the loop with the zero initial condition, the circulation, the
  force and the flux all zero, and returns 0 after its steps. (The run gets to this stage
  with a valid command line, consistent base-flow parameters, a geometry that loads, a
  model that is set up and a known scheme; the number of steps is below \<open>INT_MAX\<close>.)
\<close>

theorem failed_initial_condition_load:
  assumes mt: "fst (str2model env (modelName c)) = mt" "mt \<noteq> INVALID"
    and valid: "inputIsValid c" "\<not> helpFlag c"
    and params: "check_baseflow_parameters mt c = None"
    and geo: "Geometry_load env (geomFile c) = Some n"
    and built: "setup_model env c mt n [] = Inr (m, x00)"
    and scheme: "known_scheme env (integratorType c)"
    and ic: "icFile c \<noteq> []"
    and failed: "State_load env (icFile c) (zero_state env n) = (False, zero_state env n)"
    and nosub: "\<not> subtractBaseflow c"
    and steps: "numSteps c < INT_MAX"
  shows "\<exists>ts. main env c =
           Returned 0
             [''Loading initial condition from file: '' @ icFile c,
              ''  (failed: using zero initial condition)'']
             m ts ((TimeStepper_advance env ts ^^ nat (numSteps c)) (zero_state env n))
             (nat (numSteps c))
         \<and> before_loop env c =
             Inr \<lparr>ready_model = m, ready_solver = ts, ready_x00 = x00,
                  ready_x = zero_state env n,
                  ready_out = [''Loading initial condition from file: '' @ icFile c,
                               ''  (failed: using zero initial condition)'']\<rparr>
         \<and> cells (gamma (zero_state env n)) =
             replicate (length (cells (gamma (State_new env n)))) 0
         \<and> f (zero_state env n) = replicate (length (f (State_new env n))) 0
         \<and> cells (q (zero_state env n)) = replicate (length (cells (q (State_new env n)))) 0"
proof -
  from mt have s: "str2model env (modelName c) = (mt, [])" by (rule str2model_eq)
  obtain ts where ts: "GetSolver env m (dt c) (integratorType c) [] = Inr ts"
    using GetSolver_known [OF scheme] by blast
  from nosub have a: "\<not> (subtractBaseflow c \<and> icFile c \<noteq> [])" by simp
  have bl: "before_loop env c =
             Inr \<lparr>ready_model = m, ready_solver = ts, ready_x00 = x00,
                  ready_x = zero_state env n,
                  ready_out = [''Loading initial condition from file: '' @ icFile c,
                               ''  (failed: using zero initial condition)'']\<rparr>"
    using ic failed
    by (simp add: before_loop_stages [OF s mt(2) valid params geo built ts] lic_no_subtract [OF a])
  from main_of_before_loop_Inr [OF bl steps] bl show ?thesis
    by (simp add: zero_state_zero)
qed

theorem failed_initial_condition_load_witness:
  "main ex_env (ex_config\<lparr>icFile := ''missing.bin''\<rparr>) =
     Returned 0
       [''Loading initial condition from file: missing.bin'',
        ''  (failed: using zero initial condition)'']
       NonlinearNavierStokes (New_RungeKutta2 NonlinearNavierStokes (1 / 100))
       \<lparr>q = \<lparr>Ngrid = 1, cells = [0]\<rparr>, gamma = \<lparr>Ngrid = 1, cells = [0]\<rparr>, f = [0],
        time = 2\<rparr> 2"
proof -
  let ?c = "ex_config\<lparr>icFile := ''missing.bin''\<rparr>"
  have "\<exists>ts. main ex_env ?c =
           Returned 0
             [''Loading initial condition from file: '' @ icFile ?c,
              ''  (failed: using zero initial condition)'']
             NonlinearNavierStokes ts
             ((TimeStepper_advance ex_env ts ^^ nat (numSteps ?c)) (zero_state ex_env 1))
             (nat (numSteps ?c))
         \<and> before_loop ex_env ?c =
             Inr \<lparr>ready_model = NonlinearNavierStokes, ready_solver = ts,
                  ready_x00 = State_new ex_env 1,
                  ready_x = zero_state ex_env 1,
                  ready_out = [''Loading initial condition from file: '' @ icFile ?c,
                               ''  (failed: using zero initial condition)'']\<rparr>
         \<and> cells (gamma (zero_state ex_env 1)) =
             replicate (length (cells (gamma (State_new ex_env 1)))) 0
         \<and> f (zero_state ex_env 1) = replicate (length (f (State_new ex_env 1))) 0
         \<and> cells (q (zero_state ex_env 1)) =
             replicate (length (cells (q (State_new ex_env 1)))) 0"
    by (rule failed_initial_condition_load [where mt = NONLINEAR])
       (simp_all add: str2model_def ascii_lowercase_def ex_config_def ex_env_def
          check_baseflow_parameters_def known_scheme_def setup_model_def ex_files_def
          INT_MAX_def)
  then show ?thesis
    by (simp add: ex_run_defs)
qed


subsection \<open>The subbaseflow flag\<close>

text \<open>
  C10, as stated: with the subbaseflow flag set and the Nonlinear model, the program
  exits with status 1 before the loop. With no initial-condition file named the flag is
  never looked at, and the run completes its two steps.
\<close>

theorem subbaseflow_nonlinear_counterexample:
  "main ex_env (ex_config\<lparr>subtractBaseflow := True\<rparr>) =
     Returned 0 [''Using zero initial condition''] NonlinearNavierStokes
       (New_RungeKutta2 NonlinearNavierStokes (1 / 100))
       \<lparr>q = \<lparr>Ngrid = 1, cells = [0]\<rparr>, gamma = \<lparr>Ngrid = 1, cells = [0]\<rparr>, f = [0],
        time = 2\<rparr> 2"
  by (simp add: ex_run_defs)

text \<open>
  C10, amended. If the subbaseflow flag is set while the Nonlinear model is selected and
  an initial-condition file is named, the program prints the error and exits with
  status 1 before any \<^verbatim>\<open>advance\<close> call (for a run that gets to the initial-condition
  stage: a valid command line, a geometry that loads, a known scheme). With no
  initial-condition file named, or the flag not set, the Nonlinear run enters the loop
  with the State as it was zeroed or loaded: nothing is subtracted and the force is not
  reset. For the other model variants, with the flag set and an initial-condition file
  named, the run enters the loop with the base flow subtracted from the flux and the
  circulation of the loaded State and with the force set to zero (when the model is set
  up and the two States have the same number of grid levels).
\<close>

theorem subbaseflow_nonlinear_exits:
  assumes mt: "fst (str2model env (modelName c)) = mt"
    and valid: "inputIsValid c" "\<not> helpFlag c"
    and geo: "Geometry_load env (geomFile c) = Some n"
    and scheme: "known_scheme env (integratorType c)"
  shows "(mt = NONLINEAR \<and> subtractBaseflow c \<and> icFile c \<noteq> [] \<longrightarrow>
            main env c =
              Halted (Exit 1
                ([''Loading initial condition from file: '' @ icFile c]
                 @ (if fst (State_load env (icFile c) (zero_state env n)) then []
                    else [''  (failed: using zero initial condition)''])
                 @ [''  Subtract initial condition by baseflow to form a linear initial perturbation'',
                    ''Flag subbaseflow should be true only for linear cases'']))
            \<and> advance_calls (main env c) = 0)
       \<and> (mt = NONLINEAR \<and> \<not> (subtractBaseflow c \<and> icFile c \<noteq> []) \<longrightarrow>
            (\<exists>r. before_loop env c = Inr r
                \<and> ready_x r =
                    (if icFile c = [] then zero_state env n
                     else snd (State_load env (icFile c) (zero_state env n)))))
       \<and> (mt \<noteq> NONLINEAR \<and> mt \<noteq> INVALID \<and> check_baseflow_parameters mt c = None
            \<and> setup_model env c mt n [] = Inr (m, x00)
            \<and> subtractBaseflow c \<and> icFile c \<noteq> []
            \<and> Ngrid (q (snd (State_load env (icFile c) (zero_state env n)))) = Ngrid (q x00)
            \<and> Ngrid (gamma (snd (State_load env (icFile c) (zero_state env n)))) =
                Ngrid (gamma x00) \<longrightarrow>
            (\<exists>r. before_loop env c = Inr r
                \<and> ready_x r =
                    (snd (State_load env (icFile c) (zero_state env n)))
                      \<lparr>q := field_minus_eq
                              (q (snd (State_load env (icFile c) (zero_state env n))))
                              (q x00),
                       gamma := field_minus_eq
                              (gamma (snd (State_load env (icFile c) (zero_state env n))))
                              (gamma x00),
                       f := replicate
                              (length (f (snd (State_load env (icFile c) (zero_state env n)))))
                              0\<rparr>))"
proof (intro conjI)
  show "mt = NONLINEAR \<and> subtractBaseflow c \<and> icFile c \<noteq> [] \<longrightarrow>
            main env c =
              Halted (Exit 1
                ([''Loading initial condition from file: '' @ icFile c]
                 @ (if fst (State_load env (icFile c) (zero_state env n)) then []
                    else [''  (failed: using zero initial condition)''])
                 @ [''  Subtract initial condition by baseflow to form a linear initial perturbation'',
                    ''Flag subbaseflow should be true only for linear cases'']))
            \<and> advance_calls (main env c) = 0"
  proof
    assume a: "mt = NONLINEAR \<and> subtractBaseflow c \<and> icFile c \<noteq> []"
    with mt have s: "str2model env (modelName c) = (NONLINEAR, [])"
      using str2model_eq [of env "modelName c" NONLINEAR] by simp
    obtain ts where ts: "GetSolver env NonlinearNavierStokes (dt c) (integratorType c) [] = Inr ts"
      using GetSolver_known [OF scheme] by blast
    have bl: "before_loop env c =
       (case load_initial_condition env c NONLINEAR (State_new env n) n [] of
          Inl h \<Rightarrow> Inl h
        | Inr (x, out) \<Rightarrow> Inr \<lparr>ready_model = NonlinearNavierStokes, ready_solver = ts,
                               ready_x00 = State_new env n, ready_x = x, ready_out = out\<rparr>)"
      by (rule before_loop_stages [OF s _ valid check_nl geo setup_nl ts]) simp
    from a have "before_loop env c =
       Inl (Exit 1
                ([''Loading initial condition from file: '' @ icFile c]
                 @ (if fst (State_load env (icFile c) (zero_state env n)) then []
                    else [''  (failed: using zero initial condition)''])
                 @ [''  Subtract initial condition by baseflow to form a linear initial perturbation'',
                    ''Flag subbaseflow should be true only for linear cases'']))"
      by (simp add: bl lic_nonlinear_exit)
    then show "main env c =
              Halted (Exit 1
                ([''Loading initial condition from file: '' @ icFile c]
                 @ (if fst (State_load env (icFile c) (zero_state env n)) then []
                    else [''  (failed: using zero initial condition)''])
                 @ [''  Subtract initial condition by baseflow to form a linear initial perturbation'',
                    ''Flag subbaseflow should be true only for linear cases'']))
            \<and> advance_calls (main env c) = 0"
      by (simp add: main_of_before_loop_Inl)
  qed
next
  show "mt = NONLINEAR \<and> \<not> (subtractBaseflow c \<and> icFile c \<noteq> []) \<longrightarrow>
            (\<exists>r. before_loop env c = Inr r
                \<and> ready_x r =
                    (if icFile c = [] then zero_state env n
                     else snd (State_load env (icFile c) (zero_state env n))))"
  proof
    assume a: "mt = NONLINEAR \<and> \<not> (subtractBaseflow c \<and> icFile c \<noteq> [])"
    with mt have s: "str2model env (modelName c) = (NONLINEAR, [])"
      using str2model_eq [of env "modelName c" NONLINEAR] by simp
    obtain ts where ts: "GetSolver env NonlinearNavierStokes (dt c) (integratorType c) [] = Inr ts"
      using GetSolver_known [OF scheme] by blast
    have bl: "before_loop env c =
       (case load_initial_condition env c NONLINEAR (State_new env n) n [] of
          Inl h \<Rightarrow> Inl h
        | Inr (x, out) \<Rightarrow> Inr \<lparr>ready_model = NonlinearNavierStokes, ready_solver = ts,
                               ready_x00 = State_new env n, ready_x = x, ready_out = out\<rparr>)"
      by (rule before_loop_stages [OF s _ valid check_nl geo setup_nl ts]) simp
    from a have b: "\<not> (subtractBaseflow c \<and> icFile c \<noteq> [])" by simp
    show "\<exists>r. before_loop env c = Inr r
                \<and> ready_x r =
                    (if icFile c = [] then zero_state env n
                     else snd (State_load env (icFile c) (zero_state env n)))"
      by (simp add: bl lic_no_subtract [OF b])
  qed
next
  show "mt \<noteq> NONLINEAR \<and> mt \<noteq> INVALID \<and> check_baseflow_parameters mt c = None
            \<and> setup_model env c mt n [] = Inr (m, x00)
            \<and> subtractBaseflow c \<and> icFile c \<noteq> []
            \<and> Ngrid (q (snd (State_load env (icFile c) (zero_state env n)))) = Ngrid (q x00)
            \<and> Ngrid (gamma (snd (State_load env (icFile c) (zero_state env n)))) =
                Ngrid (gamma x00) \<longrightarrow>
            (\<exists>r. before_loop env c = Inr r
                \<and> ready_x r =
                    (snd (State_load env (icFile c) (zero_state env n)))
                      \<lparr>q := field_minus_eq
                              (q (snd (State_load env (icFile c) (zero_state env n))))
                              (q x00),
                       gamma := field_minus_eq
                              (gamma (snd (State_load env (icFile c) (zero_state env n))))
                              (gamma x00),
                       f := replicate
                              (length (f (snd (State_load env (icFile c) (zero_state env n)))))
                              0\<rparr>)"
  proof
    assume a: "mt \<noteq> NONLINEAR \<and> mt \<noteq> INVALID \<and> check_baseflow_parameters mt c = None
            \<and> setup_model env c mt n [] = Inr (m, x00)
            \<and> subtractBaseflow c \<and> icFile c \<noteq> []
            \<and> Ngrid (q (snd (State_load env (icFile c) (zero_state env n)))) = Ngrid (q x00)
            \<and> Ngrid (gamma (snd (State_load env (icFile c) (zero_state env n)))) =
                Ngrid (gamma x00)"
    then have ok: "mt \<noteq> INVALID" and params: "check_baseflow_parameters mt c = None"
      and built: "setup_model env c mt n [] = Inr (m, x00)" by simp_all
    from mt ok have s: "str2model env (modelName c) = (mt, [])" by (rule str2model_eq)
    obtain ts where ts: "GetSolver env m (dt c) (integratorType c) [] = Inr ts"
      using GetSolver_known [OF scheme] by blast
    have bl: "before_loop env c =
       (case load_initial_condition env c mt x00 n [] of
          Inl h \<Rightarrow> Inl h
        | Inr (x, out) \<Rightarrow> Inr \<lparr>ready_model = m, ready_solver = ts,
                               ready_x00 = x00, ready_x = x, ready_out = out\<rparr>)"
      by (rule before_loop_stages [OF s ok valid params geo built ts])
    from a show "\<exists>r. before_loop env c = Inr r
                \<and> ready_x r =
                    (snd (State_load env (icFile c) (zero_state env n)))
                      \<lparr>q := field_minus_eq
                              (q (snd (State_load env (icFile c) (zero_state env n))))
                              (q x00),
                       gamma := field_minus_eq
                              (gamma (snd (State_load env (icFile c) (zero_state env n))))
                              (gamma x00),
                       f := replicate
                              (length (f (snd (State_load env (icFile c) (zero_state env n)))))
                              0\<rparr>"
      by (simp add: bl lic_subtract)
  qed
qed

theorem subbaseflow_nonlinear_exits_witness:
  "main ex_env (ex_config\<lparr>subtractBaseflow := True, icFile := ''ic.bin''\<rparr>) =
     Halted (Exit 1
       [''Loading initial condition from file: ic.bin'',
        ''  Subtract initial condition by baseflow to form a linear initial perturbation'',
        ''Flag subbaseflow should be true only for linear cases''])
   \<and> (\<exists>r. before_loop ex_env (ex_config\<lparr>icFile := ''ic.bin''\<rparr>) = Inr r
        \<and> ready_x r = \<lparr>q = \<lparr>Ngrid = 1, cells = [5]\<rparr>, gamma = \<lparr>Ngrid = 1, cells = [2]\<rparr>,
                        f = [1], time = 4\<rparr>)
   \<and> (\<exists>r. before_loop ex_env
              (ex_config\<lparr>modelName := ''linear'', baseFlow := ''base.bin'',
                          subtractBaseflow := True, icFile := ''ic.bin''\<rparr>) = Inr r
        \<and> ready_x r = \<lparr>q = \<lparr>Ngrid = 1, cells = [2]\<rparr>, gamma = \<lparr>Ngrid = 1, cells = [1]\<rparr>,
                        f = [0], time = 4\<rparr>)"
  using subbaseflow_nonlinear_exits
      [where c = "ex_config\<lparr>subtractBaseflow := True, icFile := ''ic.bin''\<rparr>"
         and env = ex_env and n = 1 and mt = NONLINEAR]
    subbaseflow_nonlinear_exits
      [where c = "ex_config\<lparr>icFile := ''ic.bin''\<rparr>" and env = ex_env and n = 1
         and mt = NONLINEAR]
    subbaseflow_nonlinear_exits
      [where c = "ex_config\<lparr>modelName := ''linear'', baseFlow := ''base.bin'',
                             subtractBaseflow := True, icFile := ''ic.bin''\<rparr>"
         and env = ex_env and n = 1 and mt = LINEAR
         and m = "LinearizedNavierStokes
                    \<lparr>q = \<lparr>Ngrid = 1, cells = [3]\<rparr>, gamma = \<lparr>Ngrid = 1, cells = [1]\<rparr>,
                     f = [7], time = 0\<rparr>"
         and ?x00.0 = "\<lparr>q = \<lparr>Ngrid = 1, cells = [3]\<rparr>, gamma = \<lparr>Ngrid = 1, cells = [1]\<rparr>,
                        f = [7], time = 0\<rparr>"]
  by (simp add: str2model_def ascii_lowercase_def ex_config_def ex_env_def known_scheme_def
      ex_files_def zero_state_def check_baseflow_parameters_def setup_model_def
      field_minus_eq_def Let_def)

end
